theory Spec2Isabelle
  imports Main "HOL-Library.Product_Lexorder"
begin

section \<open>The shard coordinator of litebeam (src/litebeam.go, type Sharder)\<close>

text \<open>
  The coordinator keeps one SQLite table, \<^verbatim>\<open>shards\<close>, in \<^verbatim>\<open>meta.db\<close>:
  \<^verbatim>\<open>shards(shard_id INTEGER PRIMARY KEY, db_path TEXT NOT NULL UNIQUE,
         item_count INTEGER NOT NULL DEFAULT 0, created_at DATETIME)\<close>.
  Every method of \<^verbatim>\<open>Sharder\<close> is a short sequence of SQL statements against that table.
  The model keeps the table as the list of its rows and writes each SQL statement of the
  source as a function on that list.

  Modelling decisions, all of them visible in the definitions below:
  \<^item> A row keeps \<^verbatim>\<open>shard_id\<close> and \<^verbatim>\<open>item_count\<close>. The columns \<^verbatim>\<open>db_path\<close> and
    \<^verbatim>\<open>created_at\<close> are written once by the INSERT and read only by \<^verbatim>\<open>GetDB\<close>, which
    is not modelled; the path is \<^verbatim>\<open>filepath.Join(BasePath, "shard_<id>.db")\<close>, whose last
    component determines the identifier, so its UNIQUE constraint never fires where the
    PRIMARY KEY constraint does not.
  \<^item> Go's \<^verbatim>\<open>int\<close> and SQLite's INTEGER are 64-bit; they are modelled by \<open>int\<close>, whose
    arithmetic agrees with the program's as long as no result leaves the 64-bit range.
    Counts change by one per call. Two computations of \<^verbatim>\<open>AssignItemToShard\<close> can leave
    the range on a table the program did not write itself: the next identifier
    \<^verbatim>\<open>int(maxID.Int64) + 1\<close> when the identifier \<open>2 ^ 63 - 1\<close> is registered, and
    \<^verbatim>\<open>MaxDBCount - 1\<close> at the least \<^verbatim>\<open>int\<close>. The theorem about the branch that
    depends on them (claim C2) assumes that they stay in range.
  \<^item> An \<^verbatim>\<open>error\<close> is a value: \<^verbatim>\<open>errors.New\<close>, \<^verbatim>\<open>fmt.Errorf\<close> without and with
    \<^verbatim>\<open>%w\<close> keep their format string and arguments. A method returning \<^verbatim>\<open>error\<close>
    returns \<open>error option\<close> (\<open>None\<close> is \<^verbatim>\<open>nil\<close>); a method returning \<^verbatim>\<open>(int, error)\<close>
    returns \<open>error + int\<close> (the \<^verbatim>\<open>-1\<close> or \<^verbatim>\<open>0\<close> that accompanies an error is dropped).
  \<^item> Every method also returns the coordinator after the call, since the table can have
    changed on a failing path as well.
  \<^item> The mutex is held for the whole of every mutating method, so the methods are
    modelled as sequential state transformers.
  \<^item> The storage engine itself is assumed to work: opening a file, beginning and
    committing a transaction do not fail. The failures that the statements produce by
    their meaning are modelled: \<^verbatim>\<open>sql.ErrNoRows\<close>, a constraint violation on INSERT,
    and an error returned by the caller's \<^verbatim>\<open>InitSchemaFunc\<close>.
\<close>

subsection \<open>Errors\<close>

datatype fmt_arg = ArgInt int | ArgStr string

datatype error =
    ErrNoRows
  | ErrConstraint
  | ErrCallback string
  | ErrorsNew string
  | Errorf string "fmt_arg list"
  | Wrapf string "fmt_arg list" error

subsection \<open>Configuration and coordinator\<close>

text \<open>
  \<^verbatim>\<open>InitSchemaFunc func(db *sql.DB) error\<close> is called on the freshly created database of
  one shard; the model passes the shard's identifier and gets the callback's error, if any.
\<close>

record Config =
  BasePath :: string
  SoftCap :: int
  MaxDBCount :: int
  BalancingMode :: string
  GenerationMode :: string
  InitSchemaFunc :: "(int \<Rightarrow> error option) option"

record ShardRecord =
  shard_id :: int
  item_count :: int

type_synonym shards_table = "ShardRecord list"

record Sharder =
  Config :: Config
  MetaDB :: shards_table

subsection \<open>The SQL statements\<close>

text \<open>\<^verbatim>\<open>SELECT COUNT(*) FROM shards\<close>\<close>

definition select_count :: "shards_table \<Rightarrow> int" where
  "select_count t = int (length t)"

text \<open>\<^verbatim>\<open>SELECT COUNT(*) FROM shards WHERE shard_id = ?\<close>\<close>

definition select_count_where_id :: "shards_table \<Rightarrow> int \<Rightarrow> int" where
  "select_count_where_id t sid = int (length (filter (\<lambda>r. shard_id r = sid) t))"

text \<open>
  \<^verbatim>\<open>SELECT shard_id FROM shards ORDER BY item_count ASC, shard_id ASC LIMIT 1\<close>,
  scanned by \<^verbatim>\<open>QueryRow\<close>: the first row of the ordered result, \<^verbatim>\<open>sql.ErrNoRows\<close>
  (here \<open>None\<close>) when there is none. The fallback of the fill mode issues the same
  statement without LIMIT; \<^verbatim>\<open>QueryRow\<close> reads its first row only.
\<close>

definition select_least_loaded :: "shards_table \<Rightarrow> int option" where
  "select_least_loaded t =
     (case sort_key (\<lambda>r. (item_count r, shard_id r)) t of
        [] \<Rightarrow> None
      | r # _ \<Rightarrow> Some (shard_id r))"

text \<open>\<^verbatim>\<open>SELECT shard_id FROM shards WHERE item_count < ? ORDER BY shard_id LIMIT 1\<close>\<close>

definition select_with_space :: "shards_table \<Rightarrow> int \<Rightarrow> int option" where
  "select_with_space t cap =
     (case sort_key shard_id (filter (\<lambda>r. item_count r < cap) t) of
        [] \<Rightarrow> None
      | r # _ \<Rightarrow> Some (shard_id r))"

text \<open>\<^verbatim>\<open>SELECT MAX(shard_id) FROM shards\<close>: NULL (here \<open>None\<close>) on the empty table.\<close>

fun select_max_id :: "shards_table \<Rightarrow> int option" where
  "select_max_id [] = None"
| "select_max_id (r # rs) =
     (case select_max_id rs of
        None \<Rightarrow> Some (shard_id r)
      | Some m \<Rightarrow> Some (max (shard_id r) m))"

text \<open>\<^verbatim>\<open>SELECT SUM(item_count) FROM shards\<close>: NULL on the empty table.\<close>

definition select_sum_item_count :: "shards_table \<Rightarrow> int option" where
  "select_sum_item_count t = (if t = [] then None else Some (sum_list (map item_count t)))"

text \<open>\<^verbatim>\<open>SELECT item_count FROM shards WHERE shard_id = ?\<close>\<close>

definition select_item_count :: "shards_table \<Rightarrow> int \<Rightarrow> int option" where
  "select_item_count t sid =
     (case filter (\<lambda>r. shard_id r = sid) t of [] \<Rightarrow> None | r # _ \<Rightarrow> Some (item_count r))"

text \<open>
  \<^verbatim>\<open>UPDATE shards SET item_count = <f item_count> WHERE shard_id = ?\<close>, for the three
  right-hand sides of the source: \<^verbatim>\<open>item_count + 1\<close>, \<^verbatim>\<open>1\<close> and
  \<^verbatim>\<open>MAX(item_count - 1, 0)\<close>.
\<close>

definition update_item_count :: "(int \<Rightarrow> int) \<Rightarrow> int \<Rightarrow> shards_table \<Rightarrow> shards_table" where
  "update_item_count f sid t =
     map (\<lambda>r. if shard_id r = sid then r\<lparr>item_count := f (item_count r)\<rparr> else r) t"

text \<open>
  \<^verbatim>\<open>INSERT INTO shards (shard_id, db_path, item_count) VALUES (?, ?, 0)\<close>: refused by
  the PRIMARY KEY constraint when the identifier is taken.
\<close>

definition insert_shard :: "int \<Rightarrow> shards_table \<Rightarrow> shards_table option" where
  "insert_shard sid t =
     (if sid \<in> shard_id ` set t then None
      else Some (t @ [\<lparr>shard_id = sid, item_count = 0\<rparr>]))"

subsection \<open>Read-only methods\<close>

definition GetShardCount :: "Sharder \<Rightarrow> int" where
  "GetShardCount s = select_count (MetaDB s)"

definition GetItemCount :: "Sharder \<Rightarrow> int \<Rightarrow> error + int" where
  "GetItemCount s shardID =
     (case select_item_count (MetaDB s) shardID of
        None \<Rightarrow> Inl (Errorf ''shard ID %d not found in metadata'' [ArgInt shardID])
      | Some n \<Rightarrow> Inr n)"

definition GetTotalItemCount :: "Sharder \<Rightarrow> int" where
  "GetTotalItemCount s =
     (case select_sum_item_count (MetaDB s) of None \<Rightarrow> 0 | Some n \<Rightarrow> n)"

subsection \<open>Provisioning\<close>

definition createAndRegisterNewShard :: "Sharder \<Rightarrow> int \<Rightarrow> error option \<times> Sharder" where
  "createAndRegisterNewShard s shardID =
     (let currentCount = select_count (MetaDB s) in
      if currentCount \<ge> MaxDBCount (Config s) then
        (Some (Errorf ''maximum number of shards (%d) reached''
                 [ArgInt (MaxDBCount (Config s))]), s)
      else if select_count_where_id (MetaDB s) shardID > 0 then (None, s)
      else
        (case (case InitSchemaFunc (Config s) of None \<Rightarrow> None | Some f \<Rightarrow> f shardID) of
           Some e \<Rightarrow>
             (Some (Wrapf ''failed to initialize schema for shard %d: %w'' [ArgInt shardID] e), s)
         | None \<Rightarrow>
             (case insert_shard shardID (MetaDB s) of
                None \<Rightarrow>
                  (Some (Wrapf ''failed to insert shard %d metadata: %w''
                           [ArgInt shardID] ErrConstraint), s)
              | Some t' \<Rightarrow> (None, s\<lparr>MetaDB := t'\<rparr>))))"

definition ensureShardExists :: "Sharder \<Rightarrow> int \<Rightarrow> (error + int) \<times> Sharder" where
  "ensureShardExists s shardID =
     (if select_count_where_id (MetaDB s) shardID = 0 then
        (case createAndRegisterNewShard s shardID of
           (Some e, s') \<Rightarrow> (Inl (Wrapf ''failed to create shard %d: %w'' [ArgInt shardID] e), s')
         | (None, s') \<Rightarrow> (Inr shardID, s'))
      else (Inr shardID, s))"

text \<open>
  The loop of the \<^verbatim>\<open>on-startup\<close> branch of \<^verbatim>\<open>setUpShards\<close>:
  \<^verbatim>\<open>for i := count; i < s.Config.MaxDBCount; i++\<close>, leaving at the first error.
\<close>

function create_remaining :: "Sharder \<Rightarrow> int \<Rightarrow> error option \<times> Sharder" where
  "create_remaining s i =
     (if i < MaxDBCount (Config s) then
        (case createAndRegisterNewShard s i of
           (Some e, s') \<Rightarrow>
             (Some (Wrapf ''failed to generate shard %d on startup: %w'' [ArgInt i] e), s')
         | (None, s') \<Rightarrow> create_remaining s' (i + 1))
      else (None, s))"
  by pat_completeness auto
termination
proof (relation "measure (\<lambda>(s, i). nat (MaxDBCount (Config s) - i))", goal_cases)
  case 1
  show ?case by simp
next
  case (2 s i x1 x2)
  from 2(2) have "Config x2 = Config s"
    by (auto simp: createAndRegisterNewShard_def Let_def split: option.splits if_splits)
  with 2(1) show ?case by simp
qed

definition setUpShards :: "Sharder \<Rightarrow> error option \<times> Sharder" where
  "setUpShards s =
     (if GenerationMode (Config s) = ''dynamic'' then
        (case ensureShardExists s 0 of
           (Inl e, s') \<Rightarrow>
             (Some (Wrapf ''failed to check existence of shard %d: %w'' [ArgInt 0] e), s')
         | (Inr shardID, s') \<Rightarrow>
             if shardID > 0 then (None, s')
             else
               (case createAndRegisterNewShard s' 0 of
                  (Some e, s'') \<Rightarrow>
                    (Some (Wrapf ''failed to generate intial shard on dynamic startup: %w'' [] e),
                     s'')
                | (None, s'') \<Rightarrow> (None, s'')))
      else if GenerationMode (Config s) = ''on-startup'' then
        (let count = GetShardCount s in
         if count \<ge> MaxDBCount (Config s) then (None, s)
         else create_remaining s count)
      else (None, s))"

subsection \<open>Construction\<close>

text \<open>
  \<^verbatim>\<open>NewSharder(c)\<close> over a base directory whose \<^verbatim>\<open>meta.db\<close> holds the table \<open>disk\<close>
  (\<open>[]\<close> for an empty directory: \<^verbatim>\<open>CREATE TABLE IF NOT EXISTS\<close> then creates it empty).
\<close>

definition NewSharder :: "Config \<Rightarrow> shards_table \<Rightarrow> error + Sharder" where
  "NewSharder c disk =
     (if BasePath c = '''' then Inl (ErrorsNew ''BasePath cannot be empty'')
      else if SoftCap c \<le> 0 then Inl (ErrorsNew ''SoftCap must be greater than 0'')
      else if MaxDBCount c \<le> 0 then Inl (ErrorsNew ''MaxDBCount must be greater than 0'')
      else if GenerationMode c \<notin> {'''', ''dynamic'', ''on-startup''} then
        Inl (Errorf ''failed to parse litebeam config: %s is not a valid GenerationMode''
               [ArgStr (GenerationMode c)])
      else
        (let c = (if GenerationMode c = '''' then c\<lparr>GenerationMode := ''dynamic''\<rparr> else c) in
         if BalancingMode c \<notin> {'''', ''fill'', ''round-robin''} then
           Inl (Errorf ''failed to parse litebeam config: %s is not a valid BalancingMode''
                  [ArgStr (BalancingMode c)])
         else
           (let c = (if BalancingMode c = '''' then c\<lparr>BalancingMode := ''fill''\<rparr> else c);
                s = \<lparr>Config = c, MetaDB = disk\<rparr>
            in case setUpShards s of
                 (Some e, _) \<Rightarrow> Inl (Wrapf ''failed to ensure initial shard 0 exists: %w'' [] e)
               | (None, s') \<Rightarrow> Inr s')))"

subsection \<open>Assignment and removal\<close>

definition AssignItemToShard :: "Sharder \<Rightarrow> (error + int) \<times> Sharder" where
  "AssignItemToShard s =
     (if BalancingMode (Config s) = ''round-robin'' then
        (case select_least_loaded (MetaDB s) of
           None \<Rightarrow> (Inl (Wrapf ''failed to determine next shard ID: %w'' [] ErrNoRows), s)
         | Some targetShardID \<Rightarrow>
             (Inr targetShardID,
              s\<lparr>MetaDB := update_item_count (\<lambda>n. n + 1) targetShardID (MetaDB s)\<rparr>))
      else if BalancingMode (Config s) = ''fill'' then
        (case select_with_space (MetaDB s) (SoftCap (Config s)) of
           Some targetShardID \<Rightarrow>
             (Inr targetShardID,
              s\<lparr>MetaDB := update_item_count (\<lambda>n. n + 1) targetShardID (MetaDB s)\<rparr>)
         | None \<Rightarrow>
             (let nextShardID = (case select_max_id (MetaDB s) of None \<Rightarrow> 0 | Some m \<Rightarrow> m + 1) in
              if nextShardID > MaxDBCount (Config s) - 1 then
                (case select_least_loaded (MetaDB s) of
                   None \<Rightarrow>
                     (Inl (Wrapf
                        ''failed to determine next shard ID where shards are exhausted: %w''
                        [] ErrNoRows), s)
                 | Some targetShardID \<Rightarrow>
                     (Inr targetShardID,
                      s\<lparr>MetaDB := update_item_count (\<lambda>n. n + 1) targetShardID (MetaDB s)\<rparr>))
              else
                (case createAndRegisterNewShard s nextShardID of
                   (Some e, s') \<Rightarrow> (Inl e, s')
                 | (None, s') \<Rightarrow>
                     (Inr nextShardID,
                      s'\<lparr>MetaDB := update_item_count (\<lambda>_. 1) nextShardID (MetaDB s')\<rparr>))))
      else
        (Inl (Errorf ''litebeam config error, %s is not a valid balancing mode''
                [ArgStr (BalancingMode (Config s))]), s))"

definition RemoveItemFromShard :: "Sharder \<Rightarrow> int \<Rightarrow> error option \<times> Sharder" where
  "RemoveItemFromShard s ID =
     (None, s\<lparr>MetaDB := update_item_count (\<lambda>n. max (n - 1) 0) ID (MetaDB s)\<rparr>)"

subsection \<open>Sequences of calls\<close>

text \<open>
  A caller's sequence of \<^verbatim>\<open>AssignItemToShard()\<close> and \<^verbatim>\<open>RemoveItemFromShard(ID)\<close>
  calls. \<open>run\<close> performs them in order and stops at the first call that returns an
  error, so \<open>run s ops = Inr s'\<close> says that every call of \<open>ops\<close> completed.
\<close>

datatype operation = Assign | Remove int

fun run :: "Sharder \<Rightarrow> operation list \<Rightarrow> error + Sharder" where
  "run s [] = Inr s"
| "run s (Assign # ops) =
     (case AssignItemToShard s of
        (Inl e, _) \<Rightarrow> Inl e
      | (Inr _, s') \<Rightarrow> run s' ops)"
| "run s (Remove ID # ops) =
     (case RemoveItemFromShard s ID of
        (Some e, _) \<Rightarrow> Inl e
      | (None, s') \<Rightarrow> run s' ops)"

definition count_assigns :: "operation list \<Rightarrow> int" where
  "count_assigns ops = int (length (filter (\<lambda>x. x = Assign) ops))"

definition count_removes :: "operation list \<Rightarrow> int" where
  "count_removes ops = int (length (filter (\<lambda>x. x \<noteq> Assign) ops))"

text \<open>
  The removals of a sequence that found something to remove: those whose shard was
  registered with a positive \<^verbatim>\<open>item_count\<close> at the moment of the call.
\<close>

fun count_effective_removes :: "Sharder \<Rightarrow> operation list \<Rightarrow> int" where
  "count_effective_removes s [] = 0"
| "count_effective_removes s (Assign # ops) =
     count_effective_removes (snd (AssignItemToShard s)) ops"
| "count_effective_removes s (Remove ID # ops) =
     (case GetItemCount s ID of
        Inr n \<Rightarrow> if n > 0 then 1 else 0
      | Inl _ \<Rightarrow> 0)
     + count_effective_removes (snd (RemoveItemFromShard s ID)) ops"

text \<open>\<open>n\<close> consecutive \<^verbatim>\<open>AssignItemToShard()\<close> calls: what each returned, and the state after.\<close>

fun assign_times :: "nat \<Rightarrow> Sharder \<Rightarrow> (error + int) list \<times> Sharder" where
  "assign_times 0 s = ([], s)"
| "assign_times (Suc n) s =
     (case AssignItemToShard s of
        (r, s') \<Rightarrow> (case assign_times n s' of (rs, s'') \<Rightarrow> (r # rs, s'')))"

text \<open>What \<^verbatim>\<open>GetItemCount\<close> reports for the registered shards, in table order.\<close>

definition registered_item_counts :: "Sharder \<Rightarrow> (error + int) list" where
  "registered_item_counts s = map (\<lambda>r. GetItemCount s (shard_id r)) (MetaDB s)"

definition sum_registered_item_counts :: "Sharder \<Rightarrow> int" where
  "sum_registered_item_counts s =
     sum_list (map (\<lambda>x. case x of Inr n \<Rightarrow> n | Inl _ \<Rightarrow> 0) (registered_item_counts s))"

text \<open>
  The states of a coordinator: constructed by \<^verbatim>\<open>NewSharder(c)\<close> over a base directory
  whose \<^verbatim>\<open>meta.db\<close> holds the table \<open>disk\<close>, then any calls of the mutating methods,
  successful or not. The directory can be new (\<open>disk = []\<close>) or hold whatever earlier
  runs have left there, under this configuration or any other.
\<close>

inductive reachable :: "Config \<Rightarrow> shards_table \<Rightarrow> Sharder \<Rightarrow> bool"
  for c :: Config and disk :: shards_table where
  reach_new: "NewSharder c disk = Inr s \<Longrightarrow> reachable c disk s"
| reach_assign: "reachable c disk s \<Longrightarrow> reachable c disk (snd (AssignItemToShard s))"
| reach_remove: "reachable c disk s \<Longrightarrow> reachable c disk (snd (RemoveItemFromShard s ID))"
| reach_create:
    "reachable c disk s \<Longrightarrow> reachable c disk (snd (createAndRegisterNewShard s shardID))"
| reach_ensure: "reachable c disk s \<Longrightarrow> reachable c disk (snd (ensureShardExists s shardID))"

code_pred reachable .

text \<open>The PRIMARY KEY constraint of the table: no two rows share a \<^verbatim>\<open>shard_id\<close>.\<close>

definition primary_key :: "shards_table \<Rightarrow> bool" where
  "primary_key t = distinct (map shard_id t)"

text \<open>
  What every state of a coordinator satisfies that was constructed over an empty base
  directory (shown below): the key constraint, no negative \<^verbatim>\<open>item_count\<close>, and no more
  rows than \<^verbatim>\<open>MaxDBCount\<close>.
\<close>

definition consistent :: "Sharder \<Rightarrow> bool" where
  "consistent s \<longleftrightarrow>
     primary_key (MetaDB s) \<and> (\<forall>r\<in>set (MetaDB s). 0 \<le> item_count r) \<and>
     GetShardCount s \<le> MaxDBCount (Config s)"

subsection \<open>Concrete configurations\<close>

text \<open>
  The configuration of the repository's test \<^verbatim>\<open>TestRemoveItemFromShard\<close>, with the
  balancing mode written out: fill, soft cap 2, at most 5 shards, all created on startup.
\<close>

definition fill_startup_config :: Config where
  "fill_startup_config =
     \<lparr>BasePath = ''./tests'', SoftCap = 2, MaxDBCount = 5, BalancingMode = ''fill'',
      GenerationMode = ''on-startup'', InitSchemaFunc = None\<rparr>"

definition fill_startup_table :: "int list \<Rightarrow> shards_table" where
  "fill_startup_table ns =
     map (\<lambda>(i, n). \<lparr>shard_id = i, item_count = n\<rparr>) (zip [0, 1, 2, 3, 4] ns)"

definition fill_startup_sharder :: "int list \<Rightarrow> Sharder" where
  "fill_startup_sharder ns =
     \<lparr>Config = fill_startup_config, MetaDB = fill_startup_table ns\<rparr>"

text \<open>
  The smallest valid configuration: soft cap 1 and one shard at most, with the generation
  mode left open; and the coordinator whose table holds that one shard, empty.
\<close>

definition single_shard_config :: "string \<Rightarrow> Config" where
  "single_shard_config generationMode =
     \<lparr>BasePath = ''./tests'', SoftCap = 1, MaxDBCount = 1, BalancingMode = ''fill'',
      GenerationMode = generationMode, InitSchemaFunc = None\<rparr>"

definition single_shard_sharder :: "string \<Rightarrow> Sharder" where
  "single_shard_sharder generationMode =
     \<lparr>Config = single_shard_config generationMode,
      MetaDB = [\<lparr>shard_id = 0, item_count = 0\<rparr>]\<rparr>"

section \<open>Properties\<close>

subsection \<open>The SQL statements\<close>

lemma update_item_count_ids [simp]:
  "map shard_id (update_item_count f sid t) = map shard_id t"
  by (induction t) (simp_all add: update_item_count_def)

lemma update_item_count_length [simp]:
  "length (update_item_count f sid t) = length t"
  by (simp add: update_item_count_def)

lemma update_item_count_absent:
  "sid \<notin> shard_id ` set t \<Longrightarrow> update_item_count f sid t = t"
  by (induction t) (auto simp: update_item_count_def)

lemma primary_key_row_eq:
  assumes "primary_key t" "r \<in> set t" "x \<in> set t" "shard_id x = shard_id r"
  shows "x = r"
proof -
  from assms(1) have "inj_on shard_id (set t)"
    by (simp add: primary_key_def distinct_map)
  with assms(2-4) show ?thesis by (rule_tac inj_onD)
qed

lemma update_item_count_row:
  assumes "primary_key t" "r \<in> set t"
  shows "update_item_count f (shard_id r) t =
         map (\<lambda>x. if x = r then x\<lparr>item_count := f (item_count x)\<rparr> else x) t"
  unfolding update_item_count_def
  by (rule map_cong) (use assms primary_key_row_eq in auto)

lemma sum_update_item_count:
  "primary_key t \<Longrightarrow> r \<in> set t \<Longrightarrow>
   sum_list (map item_count (update_item_count f (shard_id r) t)) =
   sum_list (map item_count t) + f (item_count r) - item_count r"
proof (induction t)
  case Nil
  then show ?case by simp
next
  case (Cons a t)
  show ?case
  proof (cases "a = r")
    case True
    with Cons.prems have "shard_id r \<notin> shard_id ` set t"
      by (auto simp: primary_key_def)
    then have "update_item_count f (shard_id r) t = t"
      by (rule update_item_count_absent)
    then show ?thesis using True
      by (simp add: update_item_count_def)
  next
    case False
    with Cons.prems have in_t: "r \<in> set t" and pk: "primary_key t"
      and "shard_id a \<noteq> shard_id r"
      by (auto simp: primary_key_def)
    with Cons.IH show ?thesis
      by (simp add: update_item_count_def)
  qed
qed

lemma sort_key_Nil: "sort_key f xs = [] \<longleftrightarrow> xs = []"
proof -
  have "length (sort_key f xs) = length xs" by (rule length_sort)
  then show ?thesis by (metis length_0_conv)
qed

lemma select_least_loaded_None: "select_least_loaded t = None \<longleftrightarrow> t = []"
proof (cases "sort_key (\<lambda>r. (item_count r, shard_id r)) t")
  case Nil
  then show ?thesis by (simp add: select_least_loaded_def sort_key_Nil)
next
  case (Cons r rs)
  then have "t \<noteq> []" by (metis sort_key_Nil list.discI)
  with Cons show ?thesis by (simp add: select_least_loaded_def)
qed

lemma select_least_loaded_Some:
  assumes "t \<noteq> []"
  shows "\<exists>r\<in>set t. select_least_loaded t = Some (shard_id r) \<and>
           (\<forall>r'\<in>set t. (item_count r, shard_id r) \<le> (item_count r', shard_id r'))"
proof -
  let ?f = "\<lambda>r. (item_count r, shard_id r)"
  obtain r rs where srt: "sort_key ?f t = r # rs"
    using assms by (cases "sort_key ?f t") (simp_all add: sort_key_Nil)
  have "set (sort_key ?f t) = set t" by simp
  with srt have in_t: "r \<in> set t" and sub: "set t = insert r (set rs)" by auto
  have "sorted (map ?f (sort_key ?f t))" by (rule sorted_sort_key)
  with srt have "\<forall>r'\<in>set rs. ?f r \<le> ?f r'" by simp
  with sub have "\<forall>r'\<in>set t. ?f r \<le> ?f r'" by auto
  moreover have "select_least_loaded t = Some (shard_id r)"
    by (simp add: select_least_loaded_def srt)
  ultimately show ?thesis using in_t by blast
qed

lemma select_with_space_None:
  "select_with_space t cap = None \<longleftrightarrow> (\<forall>r\<in>set t. \<not> item_count r < cap)"
proof (cases "sort_key shard_id (filter (\<lambda>r. item_count r < cap) t)")
  case Nil
  then have "filter (\<lambda>r. item_count r < cap) t = []" by (simp add: sort_key_Nil)
  with Nil show ?thesis by (simp add: select_with_space_def filter_empty_conv)
next
  case (Cons r rs)
  then have "filter (\<lambda>r. item_count r < cap) t \<noteq> []" by (metis sort_key_Nil list.discI)
  with Cons show ?thesis by (simp add: select_with_space_def filter_empty_conv)
qed

lemma select_with_space_Some:
  assumes "\<exists>r\<in>set t. item_count r < cap"
  shows "\<exists>r\<in>set t. item_count r < cap \<and> select_with_space t cap = Some (shard_id r) \<and>
           (\<forall>r'\<in>set t. item_count r' < cap \<longrightarrow> shard_id r \<le> shard_id r')"
proof -
  let ?xs = "filter (\<lambda>r. item_count r < cap) t"
  have ne: "?xs \<noteq> []" using assms by (simp add: filter_empty_conv)
  obtain r rs where srt: "sort_key shard_id ?xs = r # rs"
    using ne by (cases "sort_key shard_id ?xs") (simp_all add: sort_key_Nil)
  have "set (sort_key shard_id ?xs) = set ?xs" by simp
  with srt have in_xs: "r \<in> set ?xs" and sub: "set ?xs = insert r (set rs)" by auto
  have "sorted (map shard_id (sort_key shard_id ?xs))" by (rule sorted_sort_key)
  with srt have "\<forall>r'\<in>set rs. shard_id r \<le> shard_id r'" by simp
  with sub have "\<forall>r'\<in>set ?xs. shard_id r \<le> shard_id r'" by auto
  moreover have "select_with_space t cap = Some (shard_id r)"
    by (simp add: select_with_space_def srt)
  ultimately show ?thesis using in_xs by auto
qed

lemma select_max_id_None: "select_max_id t = None \<longleftrightarrow> t = []"
  by (cases t) (simp_all split: option.splits)

lemma select_max_id_Some:
  "t \<noteq> [] \<Longrightarrow> select_max_id t = Some (Max (shard_id ` set t))"
proof (induction t)
  case Nil
  then show ?case by simp
next
  case (Cons a t)
  show ?case
  proof (cases "t = []")
    case True
    then show ?thesis by simp
  next
    case False
    with Cons.IH have "select_max_id t = Some (Max (shard_id ` set t))" by simp
    moreover have "Max (shard_id ` set (a # t)) = max (shard_id a) (Max (shard_id ` set t))"
      using False by simp
    ultimately show ?thesis by simp
  qed
qed

lemma select_max_id_bound:
  "select_max_id t = Some m \<Longrightarrow> r \<in> set t \<Longrightarrow> shard_id r \<le> m"
  using select_max_id_Some [of t] by (cases "t = []") auto

lemma select_item_count_None:
  "select_item_count t sid = None \<longleftrightarrow> sid \<notin> shard_id ` set t"
proof (cases "filter (\<lambda>r. shard_id r = sid) t")
  case Nil
  then show ?thesis by (auto simp: select_item_count_def filter_empty_conv)
next
  case (Cons r rs)
  then have "r \<in> set (filter (\<lambda>r. shard_id r = sid) t)" by simp
  then have "sid \<in> shard_id ` set t" by auto
  with Cons show ?thesis by (simp add: select_item_count_def)
qed

lemma select_item_count_row:
  "primary_key t \<Longrightarrow> r \<in> set t \<Longrightarrow> select_item_count t (shard_id r) = Some (item_count r)"
proof (induction t)
  case Nil
  then show ?case by simp
next
  case (Cons a t)
  then show ?case
    by (auto simp: select_item_count_def primary_key_def)
qed

lemma select_count_where_id_pos:
  "select_count_where_id t sid > 0 \<longleftrightarrow> sid \<in> shard_id ` set t"
  by (auto simp: select_count_where_id_def filter_empty_conv)

lemma select_count_where_id_zero:
  "select_count_where_id t sid = 0 \<longleftrightarrow> sid \<notin> shard_id ` set t"
  by (auto simp: select_count_where_id_def filter_empty_conv)

subsection \<open>Provisioning only appends empty shards\<close>

lemma createAndRegisterNewShard_effect:
  assumes "createAndRegisterNewShard s i = (e, s')"
  shows "(s' = s) \<or>
         (e = None \<and> i \<notin> shard_id ` set (MetaDB s) \<and>
          select_count (MetaDB s) < MaxDBCount (Config s) \<and>
          s' = s\<lparr>MetaDB := MetaDB s @ [\<lparr>shard_id = i, item_count = 0\<rparr>]\<rparr>)"
  using assms
  by (auto simp: createAndRegisterNewShard_def Let_def insert_shard_def
           split: if_splits option.splits)

lemma consistent_append:
  assumes "consistent s" "i \<notin> shard_id ` set (MetaDB s)"
    "select_count (MetaDB s) < MaxDBCount (Config s)"
  shows "consistent (s\<lparr>MetaDB := MetaDB s @ [\<lparr>shard_id = i, item_count = 0\<rparr>]\<rparr>)"
  using assms
  by (auto simp: consistent_def primary_key_def GetShardCount_def select_count_def)

lemma consistent_update:
  assumes "consistent s" "\<And>n. 0 \<le> n \<Longrightarrow> 0 \<le> f n"
  shows "consistent (s\<lparr>MetaDB := update_item_count f i (MetaDB s)\<rparr>)"
proof -
  have "\<forall>r\<in>set (update_item_count f i (MetaDB s)). 0 \<le> item_count r"
    using assms by (auto simp: consistent_def update_item_count_def)
  with assms(1) show ?thesis
    by (simp add: consistent_def primary_key_def GetShardCount_def select_count_def)
qed

lemma createAndRegisterNewShard_grows:
  assumes "createAndRegisterNewShard s i = (e, s')"
  shows "Config s' = Config s \<and>
         (\<exists>zs. MetaDB s' = MetaDB s @ zs \<and> (\<forall>r\<in>set zs. item_count r = 0)) \<and>
         (consistent s \<longrightarrow> consistent s')"
  using createAndRegisterNewShard_effect [OF assms]
proof
  assume "s' = s"
  then show ?thesis by simp
next
  assume ins: "e = None \<and> i \<notin> shard_id ` set (MetaDB s) \<and>
          select_count (MetaDB s) < MaxDBCount (Config s) \<and>
          s' = s\<lparr>MetaDB := MetaDB s @ [\<lparr>shard_id = i, item_count = 0\<rparr>]\<rparr>"
  then have "consistent s \<longrightarrow> consistent s'"
    using consistent_append [of s i] by simp
  with ins show ?thesis by simp
qed

lemma ensureShardExists_grows:
  assumes "ensureShardExists s i = (res, s')"
  shows "Config s' = Config s \<and>
         (\<exists>zs. MetaDB s' = MetaDB s @ zs \<and> (\<forall>r\<in>set zs. item_count r = 0)) \<and>
         (consistent s \<longrightarrow> consistent s')"
proof (cases "select_count_where_id (MetaDB s) i = 0")
  case True
  obtain e s1 where c: "createAndRegisterNewShard s i = (e, s1)"
    by (cases "createAndRegisterNewShard s i")
  with True assms have "s' = s1"
    by (auto simp: ensureShardExists_def split: option.splits)
  with createAndRegisterNewShard_grows [OF c] show ?thesis by simp
next
  case False
  with assms have "s' = s" by (simp add: ensureShardExists_def)
  then show ?thesis by simp
qed

lemma create_remaining_grows:
  "create_remaining s i = (e, s') \<Longrightarrow>
   Config s' = Config s \<and>
   (\<exists>zs. MetaDB s' = MetaDB s @ zs \<and> (\<forall>r\<in>set zs. item_count r = 0)) \<and>
   (consistent s \<longrightarrow> consistent s')"
proof (induction s i arbitrary: e s' rule: create_remaining.induct)
  case (1 s i)
  show ?case
  proof (cases "i < MaxDBCount (Config s)")
    case False
    with "1.prems" have "s' = s" by (simp add: create_remaining.simps [of s i])
    then show ?thesis by simp
  next
    case True
    obtain e1 s1 where c: "createAndRegisterNewShard s i = (e1, s1)"
      by (cases "createAndRegisterNewShard s i")
    note g = createAndRegisterNewShard_grows [OF c]
    show ?thesis
    proof (cases e1)
      case (Some err)
      with True c "1.prems" have "s' = s1" by (simp add: create_remaining.simps [of s i])
      with g show ?thesis by simp
    next
      case None
      with True c "1.prems" have r: "create_remaining s1 (i + 1) = (e, s')"
        by (simp add: create_remaining.simps [of s i])
      have ih: "Config s' = Config s1 \<and>
         (\<exists>zs. MetaDB s' = MetaDB s1 @ zs \<and> (\<forall>r\<in>set zs. item_count r = 0)) \<and>
         (consistent s1 \<longrightarrow> consistent s')"
        using "1.IH" [OF True c [symmetric] _ r] None by simp
      from g ih show ?thesis by auto
    qed
  qed
qed

lemma setUpShards_grows:
  assumes "setUpShards s = (e, s')"
  shows "Config s' = Config s \<and>
         (\<exists>zs. MetaDB s' = MetaDB s @ zs \<and> (\<forall>r\<in>set zs. item_count r = 0)) \<and>
         (consistent s \<longrightarrow> consistent s')"
proof -
  consider (dyn) "GenerationMode (Config s) = ''dynamic''"
    | (start) "GenerationMode (Config s) \<noteq> ''dynamic''" "GenerationMode (Config s) = ''on-startup''"
    | (other) "GenerationMode (Config s) \<noteq> ''dynamic''" "GenerationMode (Config s) \<noteq> ''on-startup''"
    by blast
  then show ?thesis
  proof cases
    case dyn
    obtain r1 s1 where en: "ensureShardExists s 0 = (r1, s1)"
      by (cases "ensureShardExists s 0")
    note g1 = ensureShardExists_grows [OF en]
    obtain e2 s2 where cr: "createAndRegisterNewShard s1 0 = (e2, s2)"
      by (cases "createAndRegisterNewShard s1 0")
    note g2 = createAndRegisterNewShard_grows [OF cr]
    from assms dyn en cr have "s' = s1 \<or> s' = s2"
      by (auto simp: setUpShards_def split: sum.splits if_splits option.splits)
    with g1 g2 show ?thesis by auto
  next
    case start
    show ?thesis
    proof (cases "GetShardCount s \<ge> MaxDBCount (Config s)")
      case True
      with assms start have "s' = s" by (simp add: setUpShards_def)
      then show ?thesis by simp
    next
      case False
      with assms start have "create_remaining s (GetShardCount s) = (e, s')"
        by (simp add: setUpShards_def Let_def del: create_remaining.simps)
      then show ?thesis by (rule create_remaining_grows)
    qed
  next
    case other
    with assms have "s' = s" by (simp add: setUpShards_def)
    then show ?thesis by simp
  qed
qed

section \<open>The claims\<close>

subsection \<open>C1: fill mode, soft cap 2, five shards created on startup\<close>

text \<open>
  Claim C1. \<^verbatim>\<open>NewSharder\<close> with fill balancing, soft cap 2, \<^verbatim>\<open>MaxDBCount\<close> 5 and
  on-startup generation, over an empty base directory, succeeds and registers the shards
  0 to 4, so \<^verbatim>\<open>GetShardCount()\<close> is 5, each with \<^verbatim>\<open>item_count\<close> 0. The first ten
  \<^verbatim>\<open>AssignItemToShard()\<close> calls return 0, 0, 1, 1, 2, 2, 3, 3, 4, 4 and leave every shard
  at \<^verbatim>\<open>item_count\<close> 2; the eleventh returns shard 0 and raises its \<^verbatim>\<open>item_count\<close> to 3.
\<close>

theorem scenario_fill_on_startup:
  "NewSharder fill_startup_config [] = Inr (fill_startup_sharder [0, 0, 0, 0, 0]) \<and>
   GetShardCount (fill_startup_sharder [0, 0, 0, 0, 0]) = 5 \<and>
   registered_item_counts (fill_startup_sharder [0, 0, 0, 0, 0]) =
     [Inr 0, Inr 0, Inr 0, Inr 0, Inr 0] \<and>
   assign_times 10 (fill_startup_sharder [0, 0, 0, 0, 0]) =
     ([Inr 0, Inr 0, Inr 1, Inr 1, Inr 2, Inr 2, Inr 3, Inr 3, Inr 4, Inr 4],
      fill_startup_sharder [2, 2, 2, 2, 2]) \<and>
   registered_item_counts (fill_startup_sharder [2, 2, 2, 2, 2]) =
     [Inr 2, Inr 2, Inr 2, Inr 2, Inr 2] \<and>
   AssignItemToShard (fill_startup_sharder [2, 2, 2, 2, 2]) =
     (Inr 0, fill_startup_sharder [3, 2, 2, 2, 2]) \<and>
   GetItemCount (fill_startup_sharder [3, 2, 2, 2, 2]) 0 = Inr 3"
proof -
  have new: "NewSharder fill_startup_config [] = Inr (fill_startup_sharder [0, 0, 0, 0, 0])"
    by (simp add: fill_startup_config_def NewSharder_def setUpShards_def GetShardCount_def
        createAndRegisterNewShard_def select_count_def select_count_where_id_def
        insert_shard_def fill_startup_sharder_def fill_startup_table_def)
  have cnt: "GetShardCount (fill_startup_sharder [0, 0, 0, 0, 0]) = 5"
    by (simp add: GetShardCount_def select_count_def fill_startup_sharder_def
        fill_startup_table_def)
  have zero: "registered_item_counts (fill_startup_sharder [0, 0, 0, 0, 0]) =
     [Inr 0, Inr 0, Inr 0, Inr 0, Inr 0]"
    by (simp add: registered_item_counts_def GetItemCount_def select_item_count_def
        fill_startup_sharder_def fill_startup_table_def)
  have ten: "assign_times 10 (fill_startup_sharder [0, 0, 0, 0, 0]) =
     ([Inr 0, Inr 0, Inr 1, Inr 1, Inr 2, Inr 2, Inr 3, Inr 3, Inr 4, Inr 4],
      fill_startup_sharder [2, 2, 2, 2, 2])"
    by (simp add: eval_nat_numeral AssignItemToShard_def fill_startup_sharder_def
        fill_startup_table_def fill_startup_config_def select_with_space_def
        update_item_count_def)
  have two: "registered_item_counts (fill_startup_sharder [2, 2, 2, 2, 2]) =
     [Inr 2, Inr 2, Inr 2, Inr 2, Inr 2]"
    by (simp add: registered_item_counts_def GetItemCount_def select_item_count_def
        fill_startup_sharder_def fill_startup_table_def)
  have eleventh: "AssignItemToShard (fill_startup_sharder [2, 2, 2, 2, 2]) =
     (Inr 0, fill_startup_sharder [3, 2, 2, 2, 2])"
    by (simp add: AssignItemToShard_def fill_startup_sharder_def fill_startup_table_def
        fill_startup_config_def select_with_space_def select_least_loaded_def
        update_item_count_def)
  have three: "GetItemCount (fill_startup_sharder [3, 2, 2, 2, 2]) 0 = Inr 3"
    by (simp add: GetItemCount_def select_item_count_def fill_startup_sharder_def
        fill_startup_table_def)
  from new cnt zero ten two eleventh three show ?thesis by blast
qed

subsection \<open>C2, C3, C4: which shard an assignment picks\<close>

lemma select_least_loaded_row:
  assumes "t \<noteq> []"
  shows "\<exists>r\<in>set t. select_least_loaded t = Some (shard_id r) \<and>
           (\<forall>r'\<in>set t. item_count r < item_count r' \<or>
                          (item_count r = item_count r' \<and> shard_id r \<le> shard_id r'))"
proof -
  from select_least_loaded_Some [OF assms] obtain r where
    r: "r \<in> set t" "select_least_loaded t = Some (shard_id r)"
    and le: "\<forall>r'\<in>set t. (item_count r, shard_id r) \<le> (item_count r', shard_id r')"
    by blast
  have "item_count r < item_count r' \<or>
        (item_count r = item_count r' \<and> shard_id r \<le> shard_id r')" if "r' \<in> set t" for r'
    using le that by (auto simp: less_eq_prod_def)
  with r show ?thesis by blast
qed

text \<open>
  Claim C3. In fill mode, when some registered shard has \<^verbatim>\<open>item_count < SoftCap\<close>,
  \<^verbatim>\<open>AssignItemToShard\<close> returns the identifier of the shard with the lowest
  \<^verbatim>\<open>shard_id\<close> among those, and the table after the call is the table before with the
  \<^verbatim>\<open>item_count\<close> of that one row raised by one: every other row is unchanged.
\<close>

theorem fill_assign_lowest_with_space:
  assumes fill: "BalancingMode (Config s) = ''fill''"
    and pk: "primary_key (MetaDB s)"
    and space: "\<exists>r\<in>set (MetaDB s). item_count r < SoftCap (Config s)"
  shows "\<exists>r\<in>set (MetaDB s).
           item_count r < SoftCap (Config s) \<and>
           (\<forall>r'\<in>set (MetaDB s). item_count r' < SoftCap (Config s) \<longrightarrow> shard_id r \<le> shard_id r') \<and>
           AssignItemToShard s =
             (Inr (shard_id r),
              s\<lparr>MetaDB := map (\<lambda>x. if x = r then x\<lparr>item_count := item_count x + 1\<rparr> else x)
                              (MetaDB s)\<rparr>)"
proof -
  from select_with_space_Some [OF space] obtain r where
    r: "r \<in> set (MetaDB s)" "item_count r < SoftCap (Config s)"
    and sel: "select_with_space (MetaDB s) (SoftCap (Config s)) = Some (shard_id r)"
    and low: "\<forall>r'\<in>set (MetaDB s). item_count r' < SoftCap (Config s) \<longrightarrow> shard_id r \<le> shard_id r'"
    by blast
  have "AssignItemToShard s =
          (Inr (shard_id r),
           s\<lparr>MetaDB := update_item_count (\<lambda>n. n + 1) (shard_id r) (MetaDB s)\<rparr>)"
    using fill sel by (simp add: AssignItemToShard_def)
  then have "AssignItemToShard s =
          (Inr (shard_id r),
           s\<lparr>MetaDB := map (\<lambda>x. if x = r then x\<lparr>item_count := item_count x + 1\<rparr> else x)
                           (MetaDB s)\<rparr>)"
    by (simp add: update_item_count_row [OF pk r(1)])
  with r low show ?thesis by blast
qed

theorem fill_assign_lowest_with_space_witness:
  "BalancingMode (Config (fill_startup_sharder [2, 1, 0, 2, 2])) = ''fill'' \<and>
   primary_key (MetaDB (fill_startup_sharder [2, 1, 0, 2, 2])) \<and>
   (\<exists>r\<in>set (MetaDB (fill_startup_sharder [2, 1, 0, 2, 2])).
      item_count r < SoftCap (Config (fill_startup_sharder [2, 1, 0, 2, 2]))) \<and>
   (\<exists>r\<in>set (MetaDB (fill_startup_sharder [2, 1, 0, 2, 2])).
           item_count r < SoftCap (Config (fill_startup_sharder [2, 1, 0, 2, 2])) \<and>
           (\<forall>r'\<in>set (MetaDB (fill_startup_sharder [2, 1, 0, 2, 2])).
              item_count r' < SoftCap (Config (fill_startup_sharder [2, 1, 0, 2, 2])) \<longrightarrow>
              shard_id r \<le> shard_id r') \<and>
           AssignItemToShard (fill_startup_sharder [2, 1, 0, 2, 2]) =
             (Inr (shard_id r),
              fill_startup_sharder [2, 1, 0, 2, 2]
                \<lparr>MetaDB := map (\<lambda>x. if x = r then x\<lparr>item_count := item_count x + 1\<rparr> else x)
                              (MetaDB (fill_startup_sharder [2, 1, 0, 2, 2]))\<rparr>))"
proof -
  let ?s = "fill_startup_sharder [2, 1, 0, 2, 2]"
  have h1: "BalancingMode (Config ?s) = ''fill''"
    by (simp add: fill_startup_sharder_def fill_startup_config_def)
  have h2: "primary_key (MetaDB ?s)"
    by (simp add: fill_startup_sharder_def fill_startup_table_def primary_key_def)
  have h3: "\<exists>r\<in>set (MetaDB ?s). item_count r < SoftCap (Config ?s)"
    by (simp add: fill_startup_sharder_def fill_startup_table_def fill_startup_config_def)
  from fill_assign_lowest_with_space [OF h1 h2 h3] h1 h2 h3 show ?thesis by blast
qed

text \<open>
  Claim C2. In fill mode, when every registered shard has \<^verbatim>\<open>item_count \<ge> SoftCap\<close> and
  the next identifier, the highest registered \<^verbatim>\<open>shard_id\<close> plus one, is above
  \<^verbatim>\<open>MaxDBCount - 1\<close>, \<^verbatim>\<open>AssignItemToShard\<close> succeeds without creating a shard: it
  returns the identifier of the registered shard with the lowest \<^verbatim>\<open>item_count\<close> (the
  lowest \<^verbatim>\<open>shard_id\<close> among equals) and raises that row's \<^verbatim>\<open>item_count\<close> by one,
  the table being otherwise unchanged. The two sides of the comparison are computed in
  Go's 64-bit \<^verbatim>\<open>int\<close>; the theorem is about the tables and configurations on which
  neither overflows: the highest registered identifier is below \<open>2 ^ 63 - 1\<close>, and
  \<^verbatim>\<open>MaxDBCount\<close> is above \<open>- (2 ^ 63)\<close>.
\<close>

theorem fill_assign_saturates:
  assumes fill: "BalancingMode (Config s) = ''fill''"
    and pk: "primary_key (MetaDB s)"
    and ne: "MetaDB s \<noteq> []"
    and full: "\<forall>r\<in>set (MetaDB s). SoftCap (Config s) \<le> item_count r"
    and in_range: "Max (shard_id ` set (MetaDB s)) < 2 ^ 63 - 1"
      "- (2 ^ 63) < MaxDBCount (Config s)"
    and ceiling: "Max (shard_id ` set (MetaDB s)) + 1 > MaxDBCount (Config s) - 1"
  shows "\<exists>r\<in>set (MetaDB s).
           (\<forall>r'\<in>set (MetaDB s). item_count r < item_count r' \<or>
                (item_count r = item_count r' \<and> shard_id r \<le> shard_id r')) \<and>
           AssignItemToShard s =
             (Inr (shard_id r),
              s\<lparr>MetaDB := map (\<lambda>x. if x = r then x\<lparr>item_count := item_count x + 1\<rparr> else x)
                              (MetaDB s)\<rparr>)"
proof -
  have none: "select_with_space (MetaDB s) (SoftCap (Config s)) = None"
    using full by (simp add: select_with_space_None not_less)
  have mx: "select_max_id (MetaDB s) = Some (Max (shard_id ` set (MetaDB s)))"
    using ne by (rule select_max_id_Some)
  from select_least_loaded_row [OF ne] obtain r where
    r: "r \<in> set (MetaDB s)" and sel: "select_least_loaded (MetaDB s) = Some (shard_id r)"
    and least: "\<forall>r'\<in>set (MetaDB s). item_count r < item_count r' \<or>
                (item_count r = item_count r' \<and> shard_id r \<le> shard_id r')"
    by blast
  have "AssignItemToShard s =
          (Inr (shard_id r),
           s\<lparr>MetaDB := update_item_count (\<lambda>n. n + 1) (shard_id r) (MetaDB s)\<rparr>)"
    using fill none mx ceiling sel by (simp add: AssignItemToShard_def)
  then have "AssignItemToShard s =
          (Inr (shard_id r),
           s\<lparr>MetaDB := map (\<lambda>x. if x = r then x\<lparr>item_count := item_count x + 1\<rparr> else x)
                           (MetaDB s)\<rparr>)"
    by (simp add: update_item_count_row [OF pk r])
  with r least show ?thesis by blast
qed

theorem fill_assign_saturates_witness:
  "BalancingMode (Config (fill_startup_sharder [3, 2, 4, 2, 5])) = ''fill'' \<and>
   primary_key (MetaDB (fill_startup_sharder [3, 2, 4, 2, 5])) \<and>
   MetaDB (fill_startup_sharder [3, 2, 4, 2, 5]) \<noteq> [] \<and>
   \<not> (\<exists>r\<in>set (MetaDB (fill_startup_sharder [3, 2, 4, 2, 5])).
        item_count r < SoftCap (Config (fill_startup_sharder [3, 2, 4, 2, 5]))) \<and>
   Max (shard_id ` set (MetaDB (fill_startup_sharder [3, 2, 4, 2, 5]))) < 2 ^ 63 - 1 \<and>
   - (2 ^ 63) < MaxDBCount (Config (fill_startup_sharder [3, 2, 4, 2, 5])) \<and>
   Max (shard_id ` set (MetaDB (fill_startup_sharder [3, 2, 4, 2, 5]))) + 1 >
     MaxDBCount (Config (fill_startup_sharder [3, 2, 4, 2, 5])) - 1 \<and>
   (\<exists>r\<in>set (MetaDB (fill_startup_sharder [3, 2, 4, 2, 5])).
           (\<forall>r'\<in>set (MetaDB (fill_startup_sharder [3, 2, 4, 2, 5])).
                item_count r < item_count r' \<or>
                (item_count r = item_count r' \<and> shard_id r \<le> shard_id r')) \<and>
           AssignItemToShard (fill_startup_sharder [3, 2, 4, 2, 5]) =
             (Inr (shard_id r),
              fill_startup_sharder [3, 2, 4, 2, 5]
                \<lparr>MetaDB := map (\<lambda>x. if x = r then x\<lparr>item_count := item_count x + 1\<rparr> else x)
                              (MetaDB (fill_startup_sharder [3, 2, 4, 2, 5]))\<rparr>))"
proof -
  let ?s = "fill_startup_sharder [3, 2, 4, 2, 5]"
  have h1: "BalancingMode (Config ?s) = ''fill''"
    by (simp add: fill_startup_sharder_def fill_startup_config_def)
  have h2: "primary_key (MetaDB ?s)"
    by (simp add: fill_startup_sharder_def fill_startup_table_def primary_key_def)
  have h3: "MetaDB ?s \<noteq> []"
    by (simp add: fill_startup_sharder_def fill_startup_table_def)
  have h4: "\<forall>r\<in>set (MetaDB ?s). SoftCap (Config ?s) \<le> item_count r"
    by (simp add: fill_startup_sharder_def fill_startup_table_def fill_startup_config_def)
  have h5: "Max (shard_id ` set (MetaDB ?s)) + 1 > MaxDBCount (Config ?s) - 1"
    by (simp add: fill_startup_sharder_def fill_startup_table_def fill_startup_config_def)
  have h4': "\<not> (\<exists>r\<in>set (MetaDB ?s). item_count r < SoftCap (Config ?s))"
    using h4 by (simp add: not_less)
  have h6: "Max (shard_id ` set (MetaDB ?s)) < 2 ^ 63 - 1"
    by (simp add: fill_startup_sharder_def fill_startup_table_def)
  have h7: "- (2 ^ 63) < MaxDBCount (Config ?s)"
    by (simp add: fill_startup_sharder_def fill_startup_config_def)
  from fill_assign_saturates [OF h1 h2 h3 h4 h6 h7 h5] h1 h2 h3 h4' h5 h6 h7
  show ?thesis by blast
qed

text \<open>
  Claim C4. In round-robin mode, every successful \<^verbatim>\<open>AssignItemToShard\<close> returns the
  identifier of the registered shard with the lowest \<^verbatim>\<open>item_count\<close> (the lowest
  \<^verbatim>\<open>shard_id\<close> among equals) and raises that row's \<^verbatim>\<open>item_count\<close> by one, whatever
  the soft cap is; the call succeeds whenever a shard is registered; and, successful or
  not, it leaves the registered identifiers as they were: no shard is created.
\<close>

theorem round_robin_assign:
  assumes rr: "BalancingMode (Config s) = ''round-robin''"
    and pk: "primary_key (MetaDB s)"
  shows "(\<forall>i s'. AssignItemToShard s = (Inr i, s') \<longrightarrow>
            (\<exists>r\<in>set (MetaDB s).
               shard_id r = i \<and>
               (\<forall>r'\<in>set (MetaDB s). item_count r < item_count r' \<or>
                    (item_count r = item_count r' \<and> shard_id r \<le> shard_id r')) \<and>
               s' = s\<lparr>MetaDB := map (\<lambda>x. if x = r then x\<lparr>item_count := item_count x + 1\<rparr>
                                          else x) (MetaDB s)\<rparr>)) \<and>
         (MetaDB s \<noteq> [] \<longrightarrow> (\<exists>i. fst (AssignItemToShard s) = Inr i)) \<and>
         map shard_id (MetaDB (snd (AssignItemToShard s))) = map shard_id (MetaDB s)"
proof (cases "MetaDB s = []")
  case True
  then have "select_least_loaded (MetaDB s) = None" by (simp add: select_least_loaded_None)
  with rr have "AssignItemToShard s =
      (Inl (Wrapf ''failed to determine next shard ID: %w'' [] ErrNoRows), s)"
    by (simp add: AssignItemToShard_def)
  with True show ?thesis by simp
next
  case False
  from select_least_loaded_row [OF False] obtain r where
    r: "r \<in> set (MetaDB s)" and sel: "select_least_loaded (MetaDB s) = Some (shard_id r)"
    and least: "\<forall>r'\<in>set (MetaDB s). item_count r < item_count r' \<or>
                (item_count r = item_count r' \<and> shard_id r \<le> shard_id r')"
    by blast
  have a: "AssignItemToShard s =
          (Inr (shard_id r),
           s\<lparr>MetaDB := update_item_count (\<lambda>n. n + 1) (shard_id r) (MetaDB s)\<rparr>)"
    using rr sel by (simp add: AssignItemToShard_def)
  have ids: "map shard_id (MetaDB (snd (AssignItemToShard s))) = map shard_id (MetaDB s)"
    by (simp add: a)
  have b: "AssignItemToShard s =
          (Inr (shard_id r),
           s\<lparr>MetaDB := map (\<lambda>x. if x = r then x\<lparr>item_count := item_count x + 1\<rparr> else x)
                           (MetaDB s)\<rparr>)"
    using a by (simp add: update_item_count_row [OF pk r])
  have "\<exists>r\<in>set (MetaDB s).
               shard_id r = i \<and>
               (\<forall>r'\<in>set (MetaDB s). item_count r < item_count r' \<or>
                    (item_count r = item_count r' \<and> shard_id r \<le> shard_id r')) \<and>
               s' = s\<lparr>MetaDB := map (\<lambda>x. if x = r then x\<lparr>item_count := item_count x + 1\<rparr>
                                          else x) (MetaDB s)\<rparr>"
    if "AssignItemToShard s = (Inr i, s')" for i s'
    using that b r least by auto
  moreover have "\<exists>i. fst (AssignItemToShard s) = Inr i" by (simp add: b)
  ultimately show ?thesis using ids by blast
qed

theorem round_robin_assign_witness:
  "BalancingMode (Config (fill_startup_sharder [3, 1, 1, 4, 2]
       \<lparr>Config := fill_startup_config\<lparr>BalancingMode := ''round-robin''\<rparr>\<rparr>)) = ''round-robin'' \<and>
   primary_key (MetaDB (fill_startup_sharder [3, 1, 1, 4, 2]
       \<lparr>Config := fill_startup_config\<lparr>BalancingMode := ''round-robin''\<rparr>\<rparr>)) \<and>
   AssignItemToShard (fill_startup_sharder [3, 1, 1, 4, 2]
       \<lparr>Config := fill_startup_config\<lparr>BalancingMode := ''round-robin''\<rparr>\<rparr>) =
     (Inr 1, fill_startup_sharder [3, 2, 1, 4, 2]
       \<lparr>Config := fill_startup_config\<lparr>BalancingMode := ''round-robin''\<rparr>\<rparr>) \<and>
   (\<exists>r\<in>set (fill_startup_table [3, 1, 1, 4, 2]).
       shard_id r = 1 \<and>
       (\<forall>r'\<in>set (fill_startup_table [3, 1, 1, 4, 2]). item_count r < item_count r' \<or>
            (item_count r = item_count r' \<and> shard_id r \<le> shard_id r')) \<and>
       fill_startup_table [3, 2, 1, 4, 2] =
         map (\<lambda>x. if x = r then x\<lparr>item_count := item_count x + 1\<rparr> else x)
           (fill_startup_table [3, 1, 1, 4, 2]))"
proof -
  let ?s = "fill_startup_sharder [3, 1, 1, 4, 2]
       \<lparr>Config := fill_startup_config\<lparr>BalancingMode := ''round-robin''\<rparr>\<rparr>"
  let ?s' = "fill_startup_sharder [3, 2, 1, 4, 2]
       \<lparr>Config := fill_startup_config\<lparr>BalancingMode := ''round-robin''\<rparr>\<rparr>"
  have h1: "BalancingMode (Config ?s) = ''round-robin''"
    by (simp add: fill_startup_sharder_def fill_startup_config_def)
  have h2: "primary_key (MetaDB ?s)"
    by (simp add: fill_startup_sharder_def fill_startup_table_def primary_key_def)
  have run: "AssignItemToShard ?s = (Inr 1, ?s')"
    by (simp add: AssignItemToShard_def fill_startup_sharder_def fill_startup_table_def
        fill_startup_config_def select_least_loaded_def update_item_count_def)
  have db: "MetaDB ?s = fill_startup_table [3, 1, 1, 4, 2]"
    by (simp add: fill_startup_sharder_def)
  from round_robin_assign [OF h1 h2] run
  have "\<exists>r\<in>set (MetaDB ?s).
       shard_id r = 1 \<and>
       (\<forall>r'\<in>set (MetaDB ?s). item_count r < item_count r' \<or>
            (item_count r = item_count r' \<and> shard_id r \<le> shard_id r')) \<and>
       ?s' = ?s\<lparr>MetaDB := map (\<lambda>x. if x = r then x\<lparr>item_count := item_count x + 1\<rparr> else x)
           (MetaDB ?s)\<rparr>"
    by blast
  then have "\<exists>r\<in>set (fill_startup_table [3, 1, 1, 4, 2]).
       shard_id r = 1 \<and>
       (\<forall>r'\<in>set (fill_startup_table [3, 1, 1, 4, 2]). item_count r < item_count r' \<or>
            (item_count r = item_count r' \<and> shard_id r \<le> shard_id r')) \<and>
       fill_startup_table [3, 2, 1, 4, 2] =
         map (\<lambda>x. if x = r then x\<lparr>item_count := item_count x + 1\<rparr> else x)
           (fill_startup_table [3, 1, 1, 4, 2])"
    unfolding db by (simp add: fill_startup_sharder_def)
  with h1 h2 run show ?thesis by blast
qed

subsection \<open>C7: removal is a decrement floored at zero\<close>

lemma filter_update_item_count:
  "filter (\<lambda>r. shard_id r = j) (update_item_count f sid t) =
     (if j = sid then map (\<lambda>r. r\<lparr>item_count := f (item_count r)\<rparr>) (filter (\<lambda>r. shard_id r = sid) t)
      else filter (\<lambda>r. shard_id r = j) t)"
  by (induction t) (auto simp: update_item_count_def)

lemma select_item_count_update:
  "select_item_count (update_item_count f sid t) j =
     (if j = sid then map_option f (select_item_count t sid) else select_item_count t j)"
  by (simp add: select_item_count_def filter_update_item_count split: list.splits)

lemma GetItemCount_Inr:
  "GetItemCount s j = Inr n \<longleftrightarrow> select_item_count (MetaDB s) j = Some n"
  by (simp add: GetItemCount_def split: option.splits)

lemma select_item_count_Some_row:
  assumes "select_item_count t sid = Some n"
  shows "\<exists>r\<in>set t. shard_id r = sid \<and> item_count r = n"
proof (cases "filter (\<lambda>r. shard_id r = sid) t")
  case Nil
  with assms show ?thesis by (simp add: select_item_count_def)
next
  case (Cons r rs)
  then have "r \<in> set (filter (\<lambda>r. shard_id r = sid) t)" by simp
  moreover from Cons assms have "item_count r = n" by (simp add: select_item_count_def)
  ultimately show ?thesis by auto
qed

lemma RemoveItemFromShard_noop:
  assumes pk: "primary_key (MetaDB s)"
    and idle: "ID \<notin> shard_id ` set (MetaDB s) \<or> GetItemCount s ID = Inr 0"
  shows "RemoveItemFromShard s ID = (None, s)"
proof -
  have "update_item_count (\<lambda>n. max (n - 1) 0) ID (MetaDB s) = MetaDB s"
  proof (cases "ID \<in> shard_id ` set (MetaDB s)")
    case False
    then show ?thesis by (rule update_item_count_absent)
  next
    case True
    with idle have "select_item_count (MetaDB s) ID = Some 0"
      by (simp add: GetItemCount_Inr)
    from select_item_count_Some_row [OF this] obtain r where
      r: "r \<in> set (MetaDB s)" "shard_id r = ID" "item_count r = 0" by blast
    have "update_item_count (\<lambda>n. max (n - 1) 0) (shard_id r) (MetaDB s) =
          map (\<lambda>x. if x = r then x\<lparr>item_count := max (item_count x - 1) 0\<rparr> else x) (MetaDB s)"
      by (rule update_item_count_row [OF pk r(1)])
    also have "\<dots> = map (\<lambda>x. x) (MetaDB s)"
      by (rule map_cong) (use r(3) in auto)
    finally show ?thesis using r(2) by simp
  qed
  then show ?thesis by (simp add: RemoveItemFromShard_def)
qed

text \<open>
  Claim C7. \<^verbatim>\<open>RemoveItemFromShard(ID)\<close> always returns \<^verbatim>\<open>nil\<close>. When shard \<open>ID\<close> is
  registered with \<^verbatim>\<open>item_count\<close> \<open>n\<close>, its \<^verbatim>\<open>item_count\<close> afterwards is
  \<open>max (n - 1) 0\<close>; the counts of all other shards and the registered identifiers are
  unchanged. When \<open>ID\<close> is not registered, or its count is already 0, the state after the
  call is the state before. Any number of removals on a shard at 0 leaves it at 0.
\<close>

theorem RemoveItemFromShard_floored:
  assumes pk: "primary_key (MetaDB s)"
  shows "fst (RemoveItemFromShard s ID) = None \<and>
         (\<forall>n. GetItemCount s ID = Inr n \<longrightarrow>
            GetItemCount (snd (RemoveItemFromShard s ID)) ID = Inr (max (n - 1) 0)) \<and>
         (\<forall>j. j \<noteq> ID \<longrightarrow>
            GetItemCount (snd (RemoveItemFromShard s ID)) j = GetItemCount s j) \<and>
         map shard_id (MetaDB (snd (RemoveItemFromShard s ID))) = map shard_id (MetaDB s) \<and>
         (ID \<notin> shard_id ` set (MetaDB s) \<or> GetItemCount s ID = Inr 0 \<longrightarrow>
            RemoveItemFromShard s ID = (None, s)) \<and>
         (GetItemCount s ID = Inr 0 \<longrightarrow>
            (\<forall>k. GetItemCount (((\<lambda>x. snd (RemoveItemFromShard x ID)) ^^ k) s) ID = Inr 0))"
proof -
  have ok: "fst (RemoveItemFromShard s ID) = None"
    by (simp add: RemoveItemFromShard_def)
  have named: "GetItemCount (snd (RemoveItemFromShard s ID)) ID = Inr (max (n - 1) 0)"
    if "GetItemCount s ID = Inr n" for n
    using that
    by (simp add: GetItemCount_Inr RemoveItemFromShard_def select_item_count_update)
  have others: "GetItemCount (snd (RemoveItemFromShard s ID)) j = GetItemCount s j"
    if "j \<noteq> ID" for j
    using that
    by (simp add: GetItemCount_def RemoveItemFromShard_def select_item_count_update)
  have ids: "map shard_id (MetaDB (snd (RemoveItemFromShard s ID))) = map shard_id (MetaDB s)"
    by (simp add: RemoveItemFromShard_def)
  have noop: "RemoveItemFromShard s ID = (None, s)"
    if "ID \<notin> shard_id ` set (MetaDB s) \<or> GetItemCount s ID = Inr 0"
    using pk that by (rule RemoveItemFromShard_noop)
  have again: "GetItemCount (((\<lambda>x. snd (RemoveItemFromShard x ID)) ^^ k) s) ID = Inr 0"
    if zero: "GetItemCount s ID = Inr 0" for k
  proof -
    have "((\<lambda>x. snd (RemoveItemFromShard x ID)) ^^ k) s = s"
    proof (induction k)
      case 0
      show ?case by simp
    next
      case (Suc k)
      then show ?case using noop zero by simp
    qed
    with zero show ?thesis by simp
  qed
  from ok named others ids noop again show ?thesis by blast
qed

theorem RemoveItemFromShard_floored_witness:
  "primary_key (MetaDB (fill_startup_sharder [1, 0, 2, 2, 2])) \<and>
   GetItemCount (snd (RemoveItemFromShard (fill_startup_sharder [1, 0, 2, 2, 2]) 0)) 0 = Inr 0 \<and>
   GetItemCount (snd (RemoveItemFromShard (fill_startup_sharder [1, 0, 2, 2, 2]) 2)) 2 = Inr 1 \<and>
   RemoveItemFromShard (fill_startup_sharder [1, 0, 2, 2, 2]) 1 =
     (None, fill_startup_sharder [1, 0, 2, 2, 2]) \<and>
   RemoveItemFromShard (fill_startup_sharder [1, 0, 2, 2, 2]) 4230 =
     (None, fill_startup_sharder [1, 0, 2, 2, 2]) \<and>
   GetItemCount (((\<lambda>x. snd (RemoveItemFromShard x 1)) ^^ 3)
     (fill_startup_sharder [1, 0, 2, 2, 2])) 1 = Inr 0"
proof -
  let ?s = "fill_startup_sharder [1, 0, 2, 2, 2]"
  have pk: "primary_key (MetaDB ?s)"
    by (simp add: fill_startup_sharder_def fill_startup_table_def primary_key_def)
  have c0: "GetItemCount ?s 0 = Inr 1" and c1: "GetItemCount ?s 1 = Inr 0"
    and c2: "GetItemCount ?s 2 = Inr 2"
    by (simp_all add: GetItemCount_def select_item_count_def fill_startup_sharder_def
        fill_startup_table_def)
  have absent: "4230 \<notin> shard_id ` set (MetaDB ?s)"
    by (simp add: fill_startup_sharder_def fill_startup_table_def)
  from RemoveItemFromShard_floored [OF pk, of 0] c0
  have r0: "GetItemCount (snd (RemoveItemFromShard ?s 0)) 0 = Inr 0" by simp
  from RemoveItemFromShard_floored [OF pk, of 2] c2
  have r2: "GetItemCount (snd (RemoveItemFromShard ?s 2)) 2 = Inr 1" by simp
  from RemoveItemFromShard_floored [OF pk, of 1] c1
  have r1: "RemoveItemFromShard ?s 1 = (None, ?s)"
    and r3: "GetItemCount (((\<lambda>x. snd (RemoveItemFromShard x 1)) ^^ 3) ?s) 1 = Inr 0"
    by blast+
  from RemoveItemFromShard_floored [OF pk, of 4230] absent
  have r4: "RemoveItemFromShard ?s 4230 = (None, ?s)" by blast
  from pk r0 r2 r1 r4 r3 show ?thesis by blast
qed

subsection \<open>Construction\<close>

lemma NewSharder_valid:
  assumes "BasePath c \<noteq> []" "0 < SoftCap c" "0 < MaxDBCount c"
    and gen: "GenerationMode c \<in> {[], ''dynamic'', ''on-startup''}"
    and bal: "BalancingMode c \<in> {[], ''fill'', ''round-robin''}"
  shows "NewSharder c disk =
           (case setUpShards
                   \<lparr>Config = c\<lparr>GenerationMode :=
                                   (if GenerationMode c = [] then ''dynamic'' else GenerationMode c),
                                 BalancingMode :=
                                   (if BalancingMode c = [] then ''fill'' else BalancingMode c)\<rparr>,
                    MetaDB = disk\<rparr> of
              (Some e, _) \<Rightarrow> Inl (Wrapf ''failed to ensure initial shard 0 exists: %w'' [] e)
            | (None, s') \<Rightarrow> Inr s')"
proof -
  have id1: "c\<lparr>GenerationMode := GenerationMode c\<rparr> = c" by simp
  have id2: "\<And>d::Config. d\<lparr>BalancingMode := BalancingMode d\<rparr> = d" by simp
  show ?thesis
  proof (cases "GenerationMode c = []")
    case g: True
    show ?thesis
    proof (cases "BalancingMode c = []")
      case True
      with g assms(1-3) show ?thesis by (simp add: NewSharder_def Let_def)
    next
      case False
      with g assms(1-3) bal show ?thesis
        unfolding NewSharder_def Let_def by (simp only: id2) simp
    qed
  next
    case g: False
    show ?thesis
    proof (cases "BalancingMode c = []")
      case True
      with g assms(1-3) gen show ?thesis
        unfolding NewSharder_def Let_def by (simp add: id1)
    next
      case False
      with g assms(1-3) gen bal show ?thesis
        unfolding NewSharder_def Let_def by (simp add: id1)
    qed
  qed
qed

lemma NewSharder_rejects:
  shows "BasePath c = [] \<Longrightarrow> NewSharder c disk = Inl (ErrorsNew ''BasePath cannot be empty'')"
    and "BasePath c \<noteq> [] \<Longrightarrow> SoftCap c \<le> 0 \<Longrightarrow>
         NewSharder c disk = Inl (ErrorsNew ''SoftCap must be greater than 0'')"
    and "BasePath c \<noteq> [] \<Longrightarrow> 0 < SoftCap c \<Longrightarrow> MaxDBCount c \<le> 0 \<Longrightarrow>
         NewSharder c disk = Inl (ErrorsNew ''MaxDBCount must be greater than 0'')"
    and "BasePath c \<noteq> [] \<Longrightarrow> 0 < SoftCap c \<Longrightarrow> 0 < MaxDBCount c \<Longrightarrow>
         GenerationMode c \<notin> {[], ''dynamic'', ''on-startup''} \<Longrightarrow>
         NewSharder c disk =
           Inl (Errorf ''failed to parse litebeam config: %s is not a valid GenerationMode''
                  [ArgStr (GenerationMode c)])"
    and "BasePath c \<noteq> [] \<Longrightarrow> 0 < SoftCap c \<Longrightarrow> 0 < MaxDBCount c \<Longrightarrow>
         GenerationMode c \<in> {[], ''dynamic'', ''on-startup''} \<Longrightarrow>
         BalancingMode c \<notin> {[], ''fill'', ''round-robin''} \<Longrightarrow>
         NewSharder c disk =
           Inl (Errorf ''failed to parse litebeam config: %s is not a valid BalancingMode''
                  [ArgStr (BalancingMode c)])"
  unfolding NewSharder_def Let_def by simp_all

lemma NewSharder_Inr_Config:
  assumes "NewSharder c disk = Inr s"
  shows "Config s = c\<lparr>GenerationMode :=
                          (if GenerationMode c = [] then ''dynamic'' else GenerationMode c),
                        BalancingMode :=
                          (if BalancingMode c = [] then ''fill'' else BalancingMode c)\<rparr> \<and>
         BasePath c \<noteq> [] \<and> 0 < SoftCap c \<and> 0 < MaxDBCount c \<and>
         GenerationMode c \<in> {[], ''dynamic'', ''on-startup''} \<and>
         BalancingMode c \<in> {[], ''fill'', ''round-robin''} \<and>
         setUpShards \<lparr>Config = c\<lparr>GenerationMode :=
                          (if GenerationMode c = [] then ''dynamic'' else GenerationMode c),
                        BalancingMode :=
                          (if BalancingMode c = [] then ''fill'' else BalancingMode c)\<rparr>,
                      MetaDB = disk\<rparr> = (None, s)"
proof -
  have v1: "BasePath c \<noteq> []" using assms NewSharder_rejects(1) [of c disk] by auto
  have v2: "0 < SoftCap c" using assms v1 NewSharder_rejects(2) [of c disk] by fastforce
  have v3: "0 < MaxDBCount c" using assms v1 v2 NewSharder_rejects(3) [of c disk] by fastforce
  have v4: "GenerationMode c \<in> {[], ''dynamic'', ''on-startup''}"
    using assms v1 v2 v3 NewSharder_rejects(4) [of c disk] by fastforce
  have v5: "BalancingMode c \<in> {[], ''fill'', ''round-robin''}"
    using assms v1 v2 v3 v4 NewSharder_rejects(5) [of c disk] by fastforce
  let ?s0 = "\<lparr>Config = c\<lparr>GenerationMode :=
                          (if GenerationMode c = [] then ''dynamic'' else GenerationMode c),
                        BalancingMode :=
                          (if BalancingMode c = [] then ''fill'' else BalancingMode c)\<rparr>,
                      MetaDB = disk\<rparr>"
  obtain e s1 where su: "setUpShards ?s0 = (e, s1)" by (cases "setUpShards ?s0")
  from assms have "e = None \<and> s1 = s"
    unfolding NewSharder_valid [OF v1 v2 v3 v4 v5] su by (cases e) simp_all
  with su have su': "setUpShards ?s0 = (None, s)" by simp
  from setUpShards_grows [OF su'] have "Config s = Config ?s0" by simp
  with v1 v2 v3 v4 v5 su' show ?thesis by simp
qed

lemma setUpShards_dynamic_empty:
  assumes "GenerationMode (Config s) = ''dynamic''" "MetaDB s = []"
    "1 < MaxDBCount (Config s)" "InitSchemaFunc (Config s) = None"
  shows "setUpShards s = (None, s\<lparr>MetaDB := [\<lparr>shard_id = 0, item_count = 0\<rparr>]\<rparr>)"
proof -
  let ?s1 = "s\<lparr>MetaDB := [\<lparr>shard_id = 0, item_count = 0\<rparr>]\<rparr>"
  have c0: "createAndRegisterNewShard s 0 = (None, ?s1)"
    using assms
    by (simp add: createAndRegisterNewShard_def select_count_def select_count_where_id_def
        insert_shard_def)
  have en: "ensureShardExists s 0 = (Inr 0, ?s1)"
    using assms by (simp add: ensureShardExists_def select_count_where_id_def c0)
  have c1: "createAndRegisterNewShard ?s1 0 = (None, ?s1)"
    using assms
    by (simp add: createAndRegisterNewShard_def select_count_def select_count_where_id_def)
  show ?thesis
    using assms(1) by (simp add: setUpShards_def en c1)
qed

text \<open>
  With room for two shards or more, dynamic generation over an empty directory registers
  shard 0 and nothing else.
\<close>

lemma NewSharder_dynamic_empty:
  assumes v: "BasePath c \<noteq> []" "0 < SoftCap c" "1 < MaxDBCount c"
    and gen: "GenerationMode c = [] \<or> GenerationMode c = ''dynamic''"
    and bal: "BalancingMode c \<in> {[], ''fill'', ''round-robin''}"
    and cb: "InitSchemaFunc c = None"
  shows "NewSharder c [] =
           Inr \<lparr>Config = c\<lparr>GenerationMode := ''dynamic'',
                           BalancingMode := (if BalancingMode c = [] then ''fill''
                                             else BalancingMode c)\<rparr>,
                MetaDB = [\<lparr>shard_id = 0, item_count = 0\<rparr>]\<rparr>"
proof -
  let ?c = "c\<lparr>GenerationMode := (if GenerationMode c = [] then ''dynamic'' else GenerationMode c),
              BalancingMode := (if BalancingMode c = [] then ''fill'' else BalancingMode c)\<rparr>"
  have m: "0 < MaxDBCount c" using v(3) by simp
  have g: "GenerationMode c \<in> {[], ''dynamic'', ''on-startup''}" using gen by auto
  have eq: "?c = c\<lparr>GenerationMode := ''dynamic'',
                    BalancingMode := (if BalancingMode c = [] then ''fill''
                                      else BalancingMode c)\<rparr>"
    using gen by (cases c) auto
  have "setUpShards \<lparr>Config = ?c, MetaDB = []\<rparr> =
          (None, \<lparr>Config = ?c, MetaDB = []\<rparr>\<lparr>MetaDB := [\<lparr>shard_id = 0, item_count = 0\<rparr>]\<rparr>)"
    by (rule setUpShards_dynamic_empty) (use v gen cb in auto)
  then show ?thesis
    unfolding NewSharder_valid [OF v(1,2) m g bal] eq by simp
qed

subsection \<open>C8: creating a shard that is already registered\<close>

text \<open>
  Claim C8 says that \<^verbatim>\<open>createAndRegisterNewShard\<close> returns success for every identifier
  that is already registered. The count check comes first in the source, so on a full
  table the call fails although the shard is there: with one shard allowed and shard 0
  registered, creating shard 0 returns the capacity error.
\<close>

theorem createAndRegisterNewShard_existing_counterexample:
  "NewSharder (single_shard_config ''on-startup'') [] = Inr (single_shard_sharder ''on-startup'') \<and>
   GetItemCount (single_shard_sharder ''on-startup'') 0 = Inr 0 \<and>
   createAndRegisterNewShard (single_shard_sharder ''on-startup'') 0 =
     (Some (Errorf ''maximum number of shards (%d) reached'' [ArgInt 1]),
      single_shard_sharder ''on-startup'')"
proof -
  have "NewSharder (single_shard_config ''on-startup'') [] = Inr (single_shard_sharder ''on-startup'')"
    by (simp add: single_shard_config_def single_shard_sharder_def NewSharder_def
        setUpShards_def GetShardCount_def createAndRegisterNewShard_def select_count_def
        select_count_where_id_def insert_shard_def)
  moreover have "GetItemCount (single_shard_sharder ''on-startup'') 0 = Inr 0"
    by (simp add: single_shard_sharder_def GetItemCount_def select_item_count_def)
  moreover have "createAndRegisterNewShard (single_shard_sharder ''on-startup'') 0 =
     (Some (Errorf ''maximum number of shards (%d) reached'' [ArgInt 1]),
      single_shard_sharder ''on-startup'')"
    by (simp add: single_shard_config_def single_shard_sharder_def
        createAndRegisterNewShard_def select_count_def)
  ultimately show ?thesis by blast
qed

text \<open>
  Claim C8, amended. For every identifier that is already registered,
  \<^verbatim>\<open>createAndRegisterNewShard\<close> leaves the coordinator unchanged; it returns
  \<^verbatim>\<open>nil\<close> while fewer than \<^verbatim>\<open>MaxDBCount\<close> shards are registered, and the error
  "maximum number of shards reached" otherwise. It never returns a conflict error.
\<close>

theorem createAndRegisterNewShard_existing:
  assumes "shardID \<in> shard_id ` set (MetaDB s)"
  shows "createAndRegisterNewShard s shardID =
           (if GetShardCount s < MaxDBCount (Config s) then None
            else Some (Errorf ''maximum number of shards (%d) reached''
                         [ArgInt (MaxDBCount (Config s))]),
            s)"
proof -
  from assms have "select_count_where_id (MetaDB s) shardID > 0"
    by (simp add: select_count_where_id_pos)
  then show ?thesis
    by (simp add: createAndRegisterNewShard_def GetShardCount_def Let_def)
qed

theorem createAndRegisterNewShard_existing_witness:
  "3 \<in> shard_id ` set (MetaDB (fill_startup_sharder [2, 0, 1, 0])) \<and>
   GetShardCount (fill_startup_sharder [2, 0, 1, 0]) = 4 \<and>
   MaxDBCount (Config (fill_startup_sharder [2, 0, 1, 0])) = 5 \<and>
   createAndRegisterNewShard (fill_startup_sharder [2, 0, 1, 0]) 3 =
     (None, fill_startup_sharder [2, 0, 1, 0])"
proof -
  let ?s = "fill_startup_sharder [2, 0, 1, 0]"
  have h: "3 \<in> shard_id ` set (MetaDB ?s)"
    by (simp add: fill_startup_sharder_def fill_startup_table_def)
  have n: "GetShardCount ?s = 4" and m: "MaxDBCount (Config ?s) = 5"
    by (simp_all add: GetShardCount_def select_count_def fill_startup_sharder_def
        fill_startup_table_def fill_startup_config_def)
  from createAndRegisterNewShard_existing [OF h] n m
  have "createAndRegisterNewShard ?s 3 = (None, ?s)" by simp
  with h n m show ?thesis by blast
qed

subsection \<open>C9: dynamic generation over an empty directory\<close>

text \<open>
  Claim C9 says that \<^verbatim>\<open>NewSharder\<close> in dynamic mode over an empty directory succeeds for
  every valid configuration and leaves exactly shard 0, empty. The code at
  \<^verbatim>\<open>MaxDBCount = 1\<close>, a configuration the validation accepts:
  \<^verbatim>\<open>ensureShardExists(0)\<close> registers shard 0 and returns 0; the guard
  \<^verbatim>\<open>shardID > 0\<close> is then false, so \<^verbatim>\<open>createAndRegisterNewShard(0)\<close> runs again, finds
  the table full and fails. \<^verbatim>\<open>NewSharder\<close> returns that error, although the table
  \<^verbatim>\<open>setUpShards\<close> leaves behind holds exactly shard 0 with \<^verbatim>\<open>item_count\<close> 0. With
  \<^verbatim>\<open>MaxDBCount\<close> above 1 the construction succeeds (\<open>NewSharder_dynamic_empty\<close>).
\<close>

theorem NewSharder_dynamic_single_shard:
  "NewSharder (single_shard_config ''dynamic'') [] =
     Inl (Wrapf ''failed to ensure initial shard 0 exists: %w'' []
           (Wrapf ''failed to generate intial shard on dynamic startup: %w'' []
             (Errorf ''maximum number of shards (%d) reached'' [ArgInt 1]))) \<and>
   ensureShardExists \<lparr>Config = single_shard_config ''dynamic'', MetaDB = []\<rparr> 0 =
     (Inr 0, single_shard_sharder ''dynamic'') \<and>
   GetShardCount (single_shard_sharder ''dynamic'') = 1 \<and>
   GetItemCount (single_shard_sharder ''dynamic'') 0 = Inr 0 \<and>
   setUpShards \<lparr>Config = single_shard_config ''dynamic'', MetaDB = []\<rparr> =
     (Some (Wrapf ''failed to generate intial shard on dynamic startup: %w'' []
             (Errorf ''maximum number of shards (%d) reached'' [ArgInt 1])),
      single_shard_sharder ''dynamic'')"
proof -
  have en: "ensureShardExists \<lparr>Config = single_shard_config ''dynamic'', MetaDB = []\<rparr> 0 =
     (Inr 0, single_shard_sharder ''dynamic'')"
    by (simp add: single_shard_config_def single_shard_sharder_def ensureShardExists_def
        createAndRegisterNewShard_def select_count_def select_count_where_id_def
        insert_shard_def)
  have cr: "createAndRegisterNewShard (single_shard_sharder ''dynamic'') 0 =
     (Some (Errorf ''maximum number of shards (%d) reached'' [ArgInt 1]),
      single_shard_sharder ''dynamic'')"
    by (simp add: single_shard_config_def single_shard_sharder_def
        createAndRegisterNewShard_def select_count_def)
  have su: "setUpShards \<lparr>Config = single_shard_config ''dynamic'', MetaDB = []\<rparr> =
     (Some (Wrapf ''failed to generate intial shard on dynamic startup: %w'' []
             (Errorf ''maximum number of shards (%d) reached'' [ArgInt 1])),
      single_shard_sharder ''dynamic'')"
    by (simp add: setUpShards_def en cr) (simp add: single_shard_config_def)
  have new: "NewSharder (single_shard_config ''dynamic'') [] =
     Inl (Wrapf ''failed to ensure initial shard 0 exists: %w'' []
           (Wrapf ''failed to generate intial shard on dynamic startup: %w'' []
             (Errorf ''maximum number of shards (%d) reached'' [ArgInt 1])))"
  proof -
    have "NewSharder (single_shard_config ''dynamic'') [] =
       (case setUpShards \<lparr>Config = single_shard_config ''dynamic'', MetaDB = []\<rparr> of
          (Some e, _) \<Rightarrow> Inl (Wrapf ''failed to ensure initial shard 0 exists: %w'' [] e)
        | (None, s') \<Rightarrow> Inr s')"
      by (simp add: NewSharder_def) (simp add: single_shard_config_def)
    then show ?thesis by (simp add: su)
  qed
  have cnt: "GetShardCount (single_shard_sharder ''dynamic'') = 1"
    by (simp add: single_shard_sharder_def GetShardCount_def select_count_def)
  have ic: "GetItemCount (single_shard_sharder ''dynamic'') 0 = Inr 0"
    by (simp add: single_shard_sharder_def GetItemCount_def select_item_count_def)
  from new en cnt ic su show ?thesis by blast
qed

subsection \<open>C10: the mode strings\<close>

text \<open>
  Claim C10. An empty \<^verbatim>\<open>GenerationMode\<close> is read as \<^verbatim>\<open>"dynamic"\<close> and an empty
  \<^verbatim>\<open>BalancingMode\<close> as \<^verbatim>\<open>"fill"\<close>: \<^verbatim>\<open>NewSharder\<close> returns for the empty string
  what it returns for the default written out, and the coordinator it returns carries
  the default. \<^verbatim>\<open>NewSharder\<close> returns the error "not a valid GenerationMode"
  (respectively BalancingMode) exactly when the earlier checks pass and the string is
  none of the empty string and the two recognised names.
\<close>

theorem NewSharder_mode_defaults:
  "(GenerationMode c = '''' \<longrightarrow>
      NewSharder c disk = NewSharder (c\<lparr>GenerationMode := ''dynamic''\<rparr>) disk) \<and>
   (BalancingMode c = '''' \<longrightarrow>
      NewSharder c disk = NewSharder (c\<lparr>BalancingMode := ''fill''\<rparr>) disk) \<and>
   (\<forall>s. NewSharder c disk = Inr s \<longrightarrow>
      GenerationMode (Config s) =
        (if GenerationMode c = '''' then ''dynamic'' else GenerationMode c) \<and>
      BalancingMode (Config s) =
        (if BalancingMode c = '''' then ''fill'' else BalancingMode c)) \<and>
   (NewSharder c disk =
      Inl (Errorf ''failed to parse litebeam config: %s is not a valid GenerationMode''
             [ArgStr (GenerationMode c)]) \<longleftrightarrow>
    BasePath c \<noteq> '''' \<and> 0 < SoftCap c \<and> 0 < MaxDBCount c \<and>
    GenerationMode c \<notin> {'''', ''dynamic'', ''on-startup''}) \<and>
   (NewSharder c disk =
      Inl (Errorf ''failed to parse litebeam config: %s is not a valid BalancingMode''
             [ArgStr (BalancingMode c)]) \<longleftrightarrow>
    BasePath c \<noteq> '''' \<and> 0 < SoftCap c \<and> 0 < MaxDBCount c \<and>
    GenerationMode c \<in> {'''', ''dynamic'', ''on-startup''} \<and>
    BalancingMode c \<notin> {'''', ''fill'', ''round-robin''})"
proof -
  have gen_default: "NewSharder c disk = NewSharder (c\<lparr>GenerationMode := ''dynamic''\<rparr>) disk"
    if "GenerationMode c = ''''"
    using that unfolding NewSharder_def Let_def by simp
  have swap: "d\<lparr>BalancingMode := b, GenerationMode := g\<rparr> =
              d\<lparr>GenerationMode := g, BalancingMode := b\<rparr>" for d :: Config and b g
    by (cases d) simp
  have bal_default: "NewSharder c disk = NewSharder (c\<lparr>BalancingMode := ''fill''\<rparr>) disk"
    if "BalancingMode c = ''''"
    using that unfolding NewSharder_def Let_def by (simp add: swap)
  have cfg: "GenerationMode (Config s) =
        (if GenerationMode c = '''' then ''dynamic'' else GenerationMode c) \<and>
      BalancingMode (Config s) =
        (if BalancingMode c = '''' then ''fill'' else BalancingMode c)"
    if "NewSharder c disk = Inr s" for s
    using NewSharder_Inr_Config [OF that] by simp
  consider (path) "BasePath c = ''''"
    | (cap) "BasePath c \<noteq> ''''" "SoftCap c \<le> 0"
    | (count) "BasePath c \<noteq> ''''" "0 < SoftCap c" "MaxDBCount c \<le> 0"
    | (gen) "BasePath c \<noteq> ''''" "0 < SoftCap c" "0 < MaxDBCount c"
        "GenerationMode c \<notin> {'''', ''dynamic'', ''on-startup''}"
    | (bal) "BasePath c \<noteq> ''''" "0 < SoftCap c" "0 < MaxDBCount c"
        "GenerationMode c \<in> {'''', ''dynamic'', ''on-startup''}"
        "BalancingMode c \<notin> {'''', ''fill'', ''round-robin''}"
    | (valid) "BasePath c \<noteq> ''''" "0 < SoftCap c" "0 < MaxDBCount c"
        "GenerationMode c \<in> {'''', ''dynamic'', ''on-startup''}"
        "BalancingMode c \<in> {'''', ''fill'', ''round-robin''}"
    by linarith
  then have errs:
    "(NewSharder c disk =
      Inl (Errorf ''failed to parse litebeam config: %s is not a valid GenerationMode''
             [ArgStr (GenerationMode c)]) \<longleftrightarrow>
    BasePath c \<noteq> '''' \<and> 0 < SoftCap c \<and> 0 < MaxDBCount c \<and>
    GenerationMode c \<notin> {'''', ''dynamic'', ''on-startup''}) \<and>
   (NewSharder c disk =
      Inl (Errorf ''failed to parse litebeam config: %s is not a valid BalancingMode''
             [ArgStr (BalancingMode c)]) \<longleftrightarrow>
    BasePath c \<noteq> '''' \<and> 0 < SoftCap c \<and> 0 < MaxDBCount c \<and>
    GenerationMode c \<in> {'''', ''dynamic'', ''on-startup''} \<and>
    BalancingMode c \<notin> {'''', ''fill'', ''round-robin''})"
  proof cases
    case path
    then show ?thesis by (simp add: NewSharder_rejects(1))
  next
    case cap
    then show ?thesis by (simp add: NewSharder_rejects(2))
  next
    case count
    then show ?thesis by (simp add: NewSharder_rejects(3))
  next
    case gen
    then show ?thesis by (simp add: NewSharder_rejects(4))
  next
    case bal
    then show ?thesis by (simp add: NewSharder_rejects(5))
  next
    case valid
    have "NewSharder c disk \<noteq> Inl (Errorf f args)" for f args
      unfolding NewSharder_valid [OF valid]
      by (simp split: prod.splits option.splits)
    with valid show ?thesis by simp
  qed
  from gen_default bal_default cfg errs show ?thesis by blast
qed

theorem NewSharder_mode_defaults_witness:
  "NewSharder (fill_startup_config\<lparr>BalancingMode := '''', GenerationMode := ''''\<rparr>) [] =
     Inr \<lparr>Config = fill_startup_config\<lparr>BalancingMode := ''fill'', GenerationMode := ''dynamic''\<rparr>,
          MetaDB = [\<lparr>shard_id = 0, item_count = 0\<rparr>]\<rparr> \<and>
   NewSharder (fill_startup_config\<lparr>BalancingMode := ''round-robbin''\<rparr>) [] =
     Inl (Errorf ''failed to parse litebeam config: %s is not a valid BalancingMode''
            [ArgStr ''round-robbin''])"
proof -
  let ?c = "fill_startup_config\<lparr>BalancingMode := '''', GenerationMode := ''''\<rparr>"
  have "NewSharder ?c [] = NewSharder (?c\<lparr>GenerationMode := ''dynamic''\<rparr>) []"
    using NewSharder_mode_defaults [of ?c "[]"] by simp
  also have "\<dots> = NewSharder (?c\<lparr>GenerationMode := ''dynamic''\<rparr>\<lparr>BalancingMode := ''fill''\<rparr>) []"
    using NewSharder_mode_defaults [of "?c\<lparr>GenerationMode := ''dynamic''\<rparr>" "[]"] by simp
  also have "\<dots> =
     Inr \<lparr>Config = fill_startup_config\<lparr>BalancingMode := ''fill'', GenerationMode := ''dynamic''\<rparr>,
          MetaDB = [\<lparr>shard_id = 0, item_count = 0\<rparr>]\<rparr>"
    by (simp add: fill_startup_config_def NewSharder_def setUpShards_def ensureShardExists_def
        createAndRegisterNewShard_def select_count_def select_count_where_id_def
        insert_shard_def)
  finally have accepted: "NewSharder ?c [] =
     Inr \<lparr>Config = fill_startup_config\<lparr>BalancingMode := ''fill'', GenerationMode := ''dynamic''\<rparr>,
          MetaDB = [\<lparr>shard_id = 0, item_count = 0\<rparr>]\<rparr>" .
  have rejected: "NewSharder (fill_startup_config\<lparr>BalancingMode := ''round-robbin''\<rparr>) [] =
     Inl (Errorf ''failed to parse litebeam config: %s is not a valid BalancingMode''
            [ArgStr ''round-robbin''])"
    using NewSharder_mode_defaults [of "fill_startup_config\<lparr>BalancingMode := ''round-robbin''\<rparr>" "[]"]
    by (simp add: fill_startup_config_def)
  from accepted rejected show ?thesis by blast
qed

subsection \<open>What a call can do to the table\<close>

lemma createAndRegisterNewShard_fresh:
  assumes "createAndRegisterNewShard s i = (None, s')" "i \<notin> shard_id ` set (MetaDB s)"
  shows "s' = s\<lparr>MetaDB := MetaDB s @ [\<lparr>shard_id = i, item_count = 0\<rparr>]\<rparr>"
proof -
  from assms(2) have "select_count_where_id (MetaDB s) i = 0"
    by (simp add: select_count_where_id_zero)
  with assms(1) show ?thesis
    by (auto simp: createAndRegisterNewShard_def Let_def insert_shard_def
        split: if_splits option.splits)
qed

lemma update_item_count_last:
  assumes "i \<notin> shard_id ` set t"
  shows "update_item_count f i (t @ [\<lparr>shard_id = i, item_count = n\<rparr>]) =
         t @ [\<lparr>shard_id = i, item_count = f n\<rparr>]"
proof -
  have "update_item_count f i t = t" using assms by (rule update_item_count_absent)
  then show ?thesis by (simp add: update_item_count_def)
qed

lemma next_shard_id_fresh:
  "(case select_max_id t of None \<Rightarrow> 0 | Some m \<Rightarrow> m + 1) \<notin> shard_id ` set t"
proof (cases "select_max_id t")
  case None
  then show ?thesis by (simp add: select_max_id_None)
next
  case (Some m)
  have "m + 1 \<notin> shard_id ` set t"
  proof
    assume "m + 1 \<in> shard_id ` set t"
    then obtain r where r: "r \<in> set t" "shard_id r = m + 1" by auto
    from select_max_id_bound [OF Some r(1)] r(2) show False by simp
  qed
  with Some show ?thesis by simp
qed

text \<open>The ways \<^verbatim>\<open>AssignItemToShard\<close> can end.\<close>

lemma AssignItemToShard_outcomes:
  assumes "AssignItemToShard s = (res, s')"
  obtains (failed) e where "res = Inl e" "s' = s"
    | (incremented) r where "res = Inr (shard_id r)" "r \<in> set (MetaDB s)"
        "s' = s\<lparr>MetaDB := update_item_count (\<lambda>n. n + 1) (shard_id r) (MetaDB s)\<rparr>"
    | (created) i where "res = Inr i" "i \<notin> shard_id ` set (MetaDB s)"
        "select_count (MetaDB s) < MaxDBCount (Config s)"
        "s' = s\<lparr>MetaDB := MetaDB s @ [\<lparr>shard_id = i, item_count = 1\<rparr>]\<rparr>"
proof -
  let ?t = "MetaDB s"
  have least: thesis
    if sel: "select_least_loaded ?t = Some i"
      and out: "res = Inr i" "s' = s\<lparr>MetaDB := update_item_count (\<lambda>n. n + 1) i ?t\<rparr>" for i
  proof -
    from sel have "?t \<noteq> []" by (auto simp: select_least_loaded_None [symmetric])
    from select_least_loaded_Some [OF this] sel obtain r where "r \<in> set ?t" "shard_id r = i"
      by auto
    with out show thesis using incremented [of r] by simp
  qed
  consider (rr) "BalancingMode (Config s) = ''round-robin''"
    | (fill) "BalancingMode (Config s) = ''fill''"
    | (other) "BalancingMode (Config s) \<noteq> ''round-robin''" "BalancingMode (Config s) \<noteq> ''fill''"
    by blast
  then show thesis
  proof cases
    case rr
    show thesis
    proof (cases "select_least_loaded ?t")
      case None
      with rr assms show thesis using failed by (auto simp: AssignItemToShard_def)
    next
      case (Some i)
      with rr assms show thesis using least [OF Some] by (auto simp: AssignItemToShard_def)
    qed
  next
    case other
    with assms show thesis using failed by (auto simp: AssignItemToShard_def)
  next
    case fill
    show thesis
    proof (cases "select_with_space ?t (SoftCap (Config s))")
      case (Some i)
      then have "\<exists>r\<in>set ?t. item_count r < SoftCap (Config s)"
        using select_with_space_None [of ?t "SoftCap (Config s)"] by auto
      from select_with_space_Some [OF this] Some obtain r where "r \<in> set ?t" "shard_id r = i"
        by auto
      moreover from fill Some assms have "res = Inr i"
        "s' = s\<lparr>MetaDB := update_item_count (\<lambda>n. n + 1) i ?t\<rparr>"
        by (auto simp: AssignItemToShard_def)
      ultimately show thesis using incremented [of r] by simp
    next
      case None
      let ?next = "case select_max_id ?t of None \<Rightarrow> 0 | Some m \<Rightarrow> m + 1"
      show thesis
      proof (cases "?next > MaxDBCount (Config s) - 1")
        case True
        show thesis
        proof (cases "select_least_loaded ?t")
          case n: None
          with fill None True assms show thesis using failed
            by (auto simp: AssignItemToShard_def Let_def)
        next
          case (Some i)
          with fill None True assms show thesis using least [OF Some]
            by (auto simp: AssignItemToShard_def Let_def)
        qed
      next
        case False
        obtain e s1 where cr: "createAndRegisterNewShard s ?next = (e, s1)"
          by (cases "createAndRegisterNewShard s ?next")
        show thesis
        proof (cases e)
          case (Some err)
          with createAndRegisterNewShard_effect [OF cr] have "s1 = s" by auto
          with fill None False cr Some assms show thesis using failed
            by (auto simp: AssignItemToShard_def Let_def)
        next
          case n: None
          have fresh: "?next \<notin> shard_id ` set ?t" by (rule next_shard_id_fresh)
          from cr n have s1: "s1 = s\<lparr>MetaDB := ?t @ [\<lparr>shard_id = ?next, item_count = 0\<rparr>]\<rparr>"
            using createAndRegisterNewShard_fresh [OF _ fresh] by simp
          from createAndRegisterNewShard_effect [OF cr] s1
          have room: "select_count ?t < MaxDBCount (Config s)"
            by (cases s) auto
          from fill None False cr n assms have "res = Inr ?next"
            "s' = s1\<lparr>MetaDB := update_item_count (\<lambda>_. 1) ?next (MetaDB s1)\<rparr>"
            by (auto simp: AssignItemToShard_def Let_def)
          then show thesis
            using created [of ?next] fresh room s1
            by (simp add: update_item_count_last [OF fresh])
        qed
      qed
    qed
  qed
qed

lemma AssignItemToShard_consistent:
  assumes "AssignItemToShard s = (res, s')"
  shows "Config s' = Config s \<and> (consistent s \<longrightarrow> consistent s')"
  using assms
proof (cases rule: AssignItemToShard_outcomes)
  case (failed e)
  then show ?thesis by simp
next
  case (incremented r)
  then show ?thesis using consistent_update [of s "\<lambda>n. n + 1" "shard_id r"] by simp
next
  case (created i)
  have "consistent (s\<lparr>MetaDB := MetaDB s @ [\<lparr>shard_id = i, item_count = 1\<rparr>]\<rparr>)"
    if "consistent s"
    using that created(2,3)
    by (auto simp: consistent_def primary_key_def GetShardCount_def select_count_def)
  with created show ?thesis by simp
qed

lemma RemoveItemFromShard_consistent:
  "Config (snd (RemoveItemFromShard s ID)) = Config s \<and>
   (consistent s \<longrightarrow> consistent (snd (RemoveItemFromShard s ID)))"
  using consistent_update [of s "\<lambda>n. max (n - 1) 0" ID]
  by (simp add: RemoveItemFromShard_def)

lemma NewSharder_consistent:
  assumes new: "NewSharder c disk = Inr s"
    and disk: "primary_key disk" "\<forall>r\<in>set disk. 0 \<le> item_count r"
      "select_count disk \<le> MaxDBCount c"
  shows "consistent s \<and> MaxDBCount (Config s) = MaxDBCount c \<and>
         (\<exists>zs. MetaDB s = disk @ zs \<and> (\<forall>r\<in>set zs. item_count r = 0))"
proof -
  let ?c = "c\<lparr>GenerationMode :=
                 (if GenerationMode c = [] then ''dynamic'' else GenerationMode c),
               BalancingMode :=
                 (if BalancingMode c = [] then ''fill'' else BalancingMode c)\<rparr>"
  from NewSharder_Inr_Config [OF new]
  have cfg: "Config s = ?c" and su: "setUpShards \<lparr>Config = ?c, MetaDB = disk\<rparr> = (None, s)"
    by blast+
  have "consistent \<lparr>Config = ?c, MetaDB = disk\<rparr>"
    using disk by (simp add: consistent_def GetShardCount_def)
  with setUpShards_grows [OF su] cfg show ?thesis by simp
qed

lemma createAndRegisterNewShard_count:
  assumes "createAndRegisterNewShard s i = (e, s')"
  shows "Config s' = Config s \<and>
         GetShardCount s' \<le> max (GetShardCount s) (MaxDBCount (Config s))"
  using createAndRegisterNewShard_effect [OF assms]
  by (auto simp: GetShardCount_def select_count_def)

lemma ensureShardExists_count:
  assumes "ensureShardExists s i = (res, s')"
  shows "Config s' = Config s \<and>
         GetShardCount s' \<le> max (GetShardCount s) (MaxDBCount (Config s))"
proof (cases "select_count_where_id (MetaDB s) i = 0")
  case True
  obtain e s1 where c: "createAndRegisterNewShard s i = (e, s1)"
    by (cases "createAndRegisterNewShard s i")
  with True assms have "s' = s1"
    by (auto simp: ensureShardExists_def split: option.splits)
  with createAndRegisterNewShard_count [OF c] show ?thesis by simp
next
  case False
  with assms have "s' = s" by (simp add: ensureShardExists_def)
  then show ?thesis by simp
qed

lemma create_remaining_count:
  "create_remaining s i = (e, s') \<Longrightarrow>
   Config s' = Config s \<and>
   GetShardCount s' \<le> max (GetShardCount s) (MaxDBCount (Config s))"
proof (induction s i arbitrary: e s' rule: create_remaining.induct)
  case (1 s i)
  show ?case
  proof (cases "i < MaxDBCount (Config s)")
    case False
    with "1.prems" have "s' = s" by (simp add: create_remaining.simps [of s i])
    then show ?thesis by simp
  next
    case True
    obtain e1 s1 where c: "createAndRegisterNewShard s i = (e1, s1)"
      by (cases "createAndRegisterNewShard s i")
    note g = createAndRegisterNewShard_count [OF c]
    show ?thesis
    proof (cases e1)
      case (Some err)
      with True c "1.prems" have "s' = s1" by (simp add: create_remaining.simps [of s i])
      with g show ?thesis by simp
    next
      case None
      with True c "1.prems" have r: "create_remaining s1 (i + 1) = (e, s')"
        by (simp add: create_remaining.simps [of s i])
      have ih: "Config s' = Config s1 \<and>
                GetShardCount s' \<le> max (GetShardCount s1) (MaxDBCount (Config s1))"
        using "1.IH" [OF True c [symmetric] _ r] None by simp
      from g ih show ?thesis by auto
    qed
  qed
qed

lemma setUpShards_count:
  assumes "setUpShards s = (e, s')"
  shows "Config s' = Config s \<and>
         GetShardCount s' \<le> max (GetShardCount s) (MaxDBCount (Config s))"
proof -
  consider (dyn) "GenerationMode (Config s) = ''dynamic''"
    | (start) "GenerationMode (Config s) \<noteq> ''dynamic''" "GenerationMode (Config s) = ''on-startup''"
    | (other) "GenerationMode (Config s) \<noteq> ''dynamic''" "GenerationMode (Config s) \<noteq> ''on-startup''"
    by blast
  then show ?thesis
  proof cases
    case dyn
    obtain r1 s1 where en: "ensureShardExists s 0 = (r1, s1)"
      by (cases "ensureShardExists s 0")
    note g1 = ensureShardExists_count [OF en]
    obtain e2 s2 where cr: "createAndRegisterNewShard s1 0 = (e2, s2)"
      by (cases "createAndRegisterNewShard s1 0")
    note g2 = createAndRegisterNewShard_count [OF cr]
    from assms dyn en cr have "s' = s1 \<or> s' = s2"
      by (auto simp: setUpShards_def split: sum.splits if_splits option.splits)
    with g1 g2 show ?thesis by auto
  next
    case start
    show ?thesis
    proof (cases "GetShardCount s \<ge> MaxDBCount (Config s)")
      case True
      with assms start have "s' = s" by (simp add: setUpShards_def)
      then show ?thesis by simp
    next
      case False
      with assms start have "create_remaining s (GetShardCount s) = (e, s')"
        by (simp add: setUpShards_def Let_def del: create_remaining.simps)
      then show ?thesis by (rule create_remaining_count)
    qed
  next
    case other
    with assms have "s' = s" by (simp add: setUpShards_def)
    then show ?thesis by simp
  qed
qed

lemma AssignItemToShard_count:
  assumes "AssignItemToShard s = (res, s')"
  shows "Config s' = Config s \<and>
         GetShardCount s' \<le> max (GetShardCount s) (MaxDBCount (Config s))"
  using assms
proof (cases rule: AssignItemToShard_outcomes)
  case (failed e)
  then show ?thesis by simp
next
  case (incremented r)
  then show ?thesis by (simp add: GetShardCount_def select_count_def)
next
  case (created i)
  then show ?thesis by (simp add: GetShardCount_def select_count_def)
qed

lemma RemoveItemFromShard_count:
  "Config (snd (RemoveItemFromShard s ID)) = Config s \<and>
   GetShardCount (snd (RemoveItemFromShard s ID)) = GetShardCount s"
  by (simp add: RemoveItemFromShard_def GetShardCount_def select_count_def)

lemma NewSharder_count:
  assumes new: "NewSharder c disk = Inr s"
  shows "MaxDBCount (Config s) = MaxDBCount c \<and>
         GetShardCount s \<le> max (select_count disk) (MaxDBCount c)"
proof -
  let ?c = "c\<lparr>GenerationMode :=
                 (if GenerationMode c = [] then ''dynamic'' else GenerationMode c),
               BalancingMode :=
                 (if BalancingMode c = [] then ''fill'' else BalancingMode c)\<rparr>"
  from NewSharder_Inr_Config [OF new]
  have su: "setUpShards \<lparr>Config = ?c, MetaDB = disk\<rparr> = (None, s)"
    by blast
  from setUpShards_count [OF su] show ?thesis by (simp add: GetShardCount_def)
qed

lemma reachable_count:
  "reachable c disk s \<Longrightarrow>
   MaxDBCount (Config s) = MaxDBCount c \<and>
   GetShardCount s \<le> max (select_count disk) (MaxDBCount c)"
proof (induction rule: reachable.induct)
  case (reach_new s)
  then show ?case by (rule NewSharder_count)
next
  case (reach_assign s)
  then show ?case
    using AssignItemToShard_count [of s "fst (AssignItemToShard s)" "snd (AssignItemToShard s)"]
    by auto
next
  case (reach_remove s ID)
  then show ?case using RemoveItemFromShard_count [of s ID] by simp
next
  case (reach_create s shardID)
  then show ?case
    using createAndRegisterNewShard_count
      [of s shardID "fst (createAndRegisterNewShard s shardID)"
         "snd (createAndRegisterNewShard s shardID)"]
    by auto
next
  case (reach_ensure s shardID)
  then show ?case
    using ensureShardExists_count
      [of s shardID "fst (ensureShardExists s shardID)" "snd (ensureShardExists s shardID)"]
    by auto
qed

subsection \<open>C6: the shard count and the ceiling\<close>

text \<open>
  Claim C6 says that \<^verbatim>\<open>GetShardCount()\<close> never exceeds \<^verbatim>\<open>MaxDBCount\<close> in any reachable
  state under any valid configuration. \<^verbatim>\<open>NewSharder\<close> never removes a shard: over a
  base directory that an earlier run with \<^verbatim>\<open>MaxDBCount = 5\<close> has filled with five shards,
  \<^verbatim>\<open>NewSharder\<close> with \<^verbatim>\<open>MaxDBCount = 3\<close> takes the branch
  \<^verbatim>\<open>if count >= s.Config.MaxDBCount { return nil }\<close> of \<^verbatim>\<open>setUpShards\<close> and returns a
  coordinator whose \<^verbatim>\<open>GetShardCount()\<close> is 5.
\<close>

theorem shard_count_ceiling_counterexample:
  "NewSharder fill_startup_config [] = Inr (fill_startup_sharder [0, 0, 0, 0, 0]) \<and>
   MetaDB (fill_startup_sharder [0, 0, 0, 0, 0]) = fill_startup_table [0, 0, 0, 0, 0] \<and>
   NewSharder (fill_startup_config\<lparr>MaxDBCount := 3\<rparr>) (fill_startup_table [0, 0, 0, 0, 0]) =
     Inr \<lparr>Config = fill_startup_config\<lparr>MaxDBCount := 3\<rparr>,
          MetaDB = fill_startup_table [0, 0, 0, 0, 0]\<rparr> \<and>
   reachable (fill_startup_config\<lparr>MaxDBCount := 3\<rparr>) (fill_startup_table [0, 0, 0, 0, 0])
     \<lparr>Config = fill_startup_config\<lparr>MaxDBCount := 3\<rparr>,
      MetaDB = fill_startup_table [0, 0, 0, 0, 0]\<rparr> \<and>
   GetShardCount \<lparr>Config = fill_startup_config\<lparr>MaxDBCount := 3\<rparr>,
                  MetaDB = fill_startup_table [0, 0, 0, 0, 0]\<rparr> = 5 \<and>
   MaxDBCount (fill_startup_config\<lparr>MaxDBCount := 3\<rparr>) = 3"
proof -
  let ?s = "\<lparr>Config = fill_startup_config\<lparr>MaxDBCount := 3\<rparr>,
             MetaDB = fill_startup_table [0, 0, 0, 0, 0]\<rparr>"
  have first: "NewSharder fill_startup_config [] = Inr (fill_startup_sharder [0, 0, 0, 0, 0])"
    by (simp add: fill_startup_config_def NewSharder_def setUpShards_def GetShardCount_def
        createAndRegisterNewShard_def select_count_def select_count_where_id_def
        insert_shard_def fill_startup_sharder_def fill_startup_table_def)
  have left: "MetaDB (fill_startup_sharder [0, 0, 0, 0, 0]) = fill_startup_table [0, 0, 0, 0, 0]"
    by (simp add: fill_startup_sharder_def)
  have second: "NewSharder (fill_startup_config\<lparr>MaxDBCount := 3\<rparr>)
                  (fill_startup_table [0, 0, 0, 0, 0]) = Inr ?s"
    by (simp add: fill_startup_config_def NewSharder_def setUpShards_def GetShardCount_def
        select_count_def fill_startup_table_def)
  have r: "reachable (fill_startup_config\<lparr>MaxDBCount := 3\<rparr>)
             (fill_startup_table [0, 0, 0, 0, 0]) ?s"
    using second by (rule reach_new)
  have n: "GetShardCount ?s = 5"
    by (simp add: GetShardCount_def select_count_def fill_startup_table_def)
  have m: "MaxDBCount (fill_startup_config\<lparr>MaxDBCount := 3\<rparr>) = 3" by simp
  from first left second r n m show ?thesis by blast
qed

text \<open>
  Claim C6, amended. Let a coordinator be constructed by \<^verbatim>\<open>NewSharder(c)\<close> over a base
  directory whose table held \<open>n\<close> rows. In every state it can reach,
  \<^verbatim>\<open>GetShardCount()\<close> is at most the larger of \<^verbatim>\<open>MaxDBCount\<close> and \<open>n\<close>; so it never
  exceeds \<^verbatim>\<open>MaxDBCount\<close> when the directory was empty or held at most \<^verbatim>\<open>MaxDBCount\<close>
  shards. Once \<^verbatim>\<open>MaxDBCount\<close> shards or more are registered,
  \<^verbatim>\<open>createAndRegisterNewShard\<close> returns the capacity error for every identifier and
  leaves the coordinator as it was; and in any reachable state the count after a call of
  \<^verbatim>\<open>createAndRegisterNewShard\<close> is still within that bound.
\<close>

theorem shard_count_ceiling:
  assumes "reachable c disk s"
  shows "GetShardCount s \<le> max (MaxDBCount c) (select_count disk) \<and>
         (select_count disk \<le> MaxDBCount c \<longrightarrow> GetShardCount s \<le> MaxDBCount c) \<and>
         (\<forall>shardID. MaxDBCount c \<le> GetShardCount s \<longrightarrow>
            createAndRegisterNewShard s shardID =
              (Some (Errorf ''maximum number of shards (%d) reached'' [ArgInt (MaxDBCount c)]), s)) \<and>
         (\<forall>shardID. GetShardCount (snd (createAndRegisterNewShard s shardID)) \<le>
            max (MaxDBCount c) (select_count disk))"
proof -
  from reachable_count [OF assms]
  have mx: "MaxDBCount (Config s) = MaxDBCount c"
    and le: "GetShardCount s \<le> max (MaxDBCount c) (select_count disk)"
    by (simp_all add: max.commute)
  have fresh: "GetShardCount s \<le> MaxDBCount c" if "select_count disk \<le> MaxDBCount c"
    using le that by simp
  have full: "createAndRegisterNewShard s shardID =
      (Some (Errorf ''maximum number of shards (%d) reached'' [ArgInt (MaxDBCount c)]), s)"
    if "MaxDBCount c \<le> GetShardCount s" for shardID
    using that mx by (simp add: createAndRegisterNewShard_def GetShardCount_def)
  have after: "GetShardCount (snd (createAndRegisterNewShard s shardID)) \<le>
      max (MaxDBCount c) (select_count disk)" for shardID
    using reachable_count [OF reach_create [OF assms, of shardID]]
    by (simp add: max.commute)
  from le fresh full after show ?thesis by blast
qed

theorem shard_count_ceiling_witness:
  "reachable fill_startup_config [] (fill_startup_sharder [1, 0, 0, 0, 0]) \<and>
   select_count [] = 0 \<and>
   GetShardCount (fill_startup_sharder [1, 0, 0, 0, 0]) = 5 \<and>
   MaxDBCount fill_startup_config = 5 \<and>
   createAndRegisterNewShard (fill_startup_sharder [1, 0, 0, 0, 0]) 5 =
     (Some (Errorf ''maximum number of shards (%d) reached'' [ArgInt 5]),
      fill_startup_sharder [1, 0, 0, 0, 0])"
proof -
  let ?s0 = "fill_startup_sharder [0, 0, 0, 0, 0]"
  let ?s1 = "fill_startup_sharder [1, 0, 0, 0, 0]"
  have new: "NewSharder fill_startup_config [] = Inr ?s0"
    by (simp add: fill_startup_config_def NewSharder_def setUpShards_def GetShardCount_def
        createAndRegisterNewShard_def select_count_def select_count_where_id_def
        insert_shard_def fill_startup_sharder_def fill_startup_table_def)
  have step: "snd (AssignItemToShard ?s0) = ?s1"
    by (simp add: AssignItemToShard_def fill_startup_sharder_def fill_startup_table_def
        fill_startup_config_def select_with_space_def update_item_count_def)
  have r: "reachable fill_startup_config [] ?s1"
    using reach_assign [OF reach_new [OF new]] step by simp
  have z: "select_count [] = 0" by (simp add: select_count_def)
  have n: "GetShardCount ?s1 = 5"
    by (simp add: GetShardCount_def select_count_def fill_startup_sharder_def
        fill_startup_table_def)
  have m: "MaxDBCount fill_startup_config = 5" by (simp add: fill_startup_config_def)
  from shard_count_ceiling [OF r] n m
  have "createAndRegisterNewShard ?s1 5 =
     (Some (Errorf ''maximum number of shards (%d) reached'' [ArgInt 5]), ?s1)"
    by simp
  with r z n m show ?thesis by blast
qed

subsection \<open>C5: the total item count\<close>

lemma GetTotalItemCount_sum: "GetTotalItemCount s = sum_list (map item_count (MetaDB s))"
  by (simp add: GetTotalItemCount_def select_sum_item_count_def)

lemma sum_registered_item_counts_sum:
  assumes "primary_key (MetaDB s)"
  shows "sum_registered_item_counts s = sum_list (map item_count (MetaDB s))"
proof -
  have "map (\<lambda>r. case GetItemCount s (shard_id r) of Inr n \<Rightarrow> n | Inl _ \<Rightarrow> 0) (MetaDB s) =
        map item_count (MetaDB s)"
    by (rule map_cong) (simp_all add: GetItemCount_def select_item_count_row [OF assms])
  then show ?thesis
    unfolding sum_registered_item_counts_def registered_item_counts_def map_map o_def
    by (rule arg_cong)
qed

lemma sum_item_count_zero:
  "\<forall>r\<in>set t. item_count r = 0 \<Longrightarrow> sum_list (map item_count t) = 0"
  by (induction t) simp_all

lemma AssignItemToShard_total:
  assumes "AssignItemToShard s = (Inr i, s')" "primary_key (MetaDB s)"
  shows "GetTotalItemCount s' = GetTotalItemCount s + 1"
  using assms(1)
proof (cases rule: AssignItemToShard_outcomes)
  case (failed e)
  then show ?thesis by simp
next
  case (incremented r)
  then show ?thesis
    using sum_update_item_count [OF assms(2) incremented(2), of "\<lambda>n. n + 1"]
    by (simp add: GetTotalItemCount_sum)
next
  case (created j)
  then show ?thesis by (simp add: GetTotalItemCount_sum)
qed

lemma RemoveItemFromShard_total:
  assumes "consistent s"
  shows "GetTotalItemCount (snd (RemoveItemFromShard s ID)) =
         GetTotalItemCount s -
           (case GetItemCount s ID of Inr n \<Rightarrow> if n > 0 then 1 else 0 | Inl _ \<Rightarrow> 0)"
proof (cases "ID \<in> shard_id ` set (MetaDB s)")
  case False
  then have "select_item_count (MetaDB s) ID = None" by (simp add: select_item_count_None)
  moreover have "RemoveItemFromShard s ID = (None, s)"
    using assms False by (intro RemoveItemFromShard_noop) (simp_all add: consistent_def)
  ultimately show ?thesis by (simp add: GetItemCount_def)
next
  case True
  then obtain r where r: "r \<in> set (MetaDB s)" "shard_id r = ID" by auto
  from assms have pk: "primary_key (MetaDB s)" and nonneg: "0 \<le> item_count r"
    using r(1) by (simp_all add: consistent_def)
  have get: "GetItemCount s ID = Inr (item_count r)"
    using select_item_count_row [OF pk r(1)] r(2) by (simp add: GetItemCount_def)
  have "sum_list (map item_count (update_item_count (\<lambda>n. max (n - 1) 0) ID (MetaDB s))) =
        sum_list (map item_count (MetaDB s)) + max (item_count r - 1) 0 - item_count r"
    using sum_update_item_count [OF pk r(1), of "\<lambda>n. max (n - 1) 0"] r(2) by simp
  with nonneg show ?thesis
    by (simp add: get GetTotalItemCount_sum RemoveItemFromShard_def max_def)
qed

lemma count_effective_removes_le:
  "count_effective_removes s ops \<le> count_removes ops"
proof (induction ops arbitrary: s)
  case Nil
  show ?case by (simp add: count_removes_def)
next
  case (Cons x ops)
  show ?case
  proof (cases x)
    case Assign
    with Cons.IH [of "snd (AssignItemToShard s)"] show ?thesis
      by (simp add: count_removes_def)
  next
    case (Remove ID)
    have "(case GetItemCount s ID of Inr n \<Rightarrow> if n > 0 then 1 else 0 | Inl _ \<Rightarrow> 0) \<le> (1::int)"
      by (simp split: sum.splits)
    with Remove Cons.IH [of "snd (RemoveItemFromShard s ID)"] show ?thesis
      by (simp add: count_removes_def)
  qed
qed

lemma run_total:
  "consistent s0 \<Longrightarrow> run s0 ops = Inr s \<Longrightarrow>
   consistent s \<and>
   GetTotalItemCount s =
     GetTotalItemCount s0 + count_assigns ops - count_effective_removes s0 ops"
proof (induction ops arbitrary: s0)
  case Nil
  then show ?case by (simp add: count_assigns_def)
next
  case (Cons x ops)
  show ?case
  proof (cases x)
    case Assign
    obtain res s1 where a: "AssignItemToShard s0 = (res, s1)"
      by (cases "AssignItemToShard s0")
    with Cons.prems(2) Assign obtain i where res: "res = Inr i" and rest: "run s1 ops = Inr s"
      by (cases res) simp_all
    from AssignItemToShard_consistent [OF a] Cons.prems(1) have c1: "consistent s1" by simp
    from Cons.prems(1) have "primary_key (MetaDB s0)" by (simp add: consistent_def)
    with a res have t1: "GetTotalItemCount s1 = GetTotalItemCount s0 + 1"
      by (intro AssignItemToShard_total [of s0 i]) simp_all
    from Cons.IH [OF c1 rest] t1 Assign a show ?thesis
      by (simp add: count_assigns_def)
  next
    case (Remove ID)
    let ?s1 = "snd (RemoveItemFromShard s0 ID)"
    from Cons.prems(2) Remove have rest: "run ?s1 ops = Inr s"
      by (simp add: RemoveItemFromShard_def)
    from RemoveItemFromShard_consistent [of s0 ID] Cons.prems(1) have c1: "consistent ?s1"
      by simp
    from Cons.IH [OF c1 rest] RemoveItemFromShard_total [OF Cons.prems(1), of ID] Remove
    show ?thesis by (simp add: count_assigns_def)
  qed
qed

text \<open>
  Claim C5 says that after any sequence of successful assignments and removals
  \<^verbatim>\<open>GetTotalItemCount()\<close> is the number of completed assignments minus the number of
  completed removals. A removal on a shard that is empty (or not registered) completes
  and removes nothing: after one assignment and one removal on the empty shard 3, both
  successful, the total is 1 and not 0.
\<close>

theorem total_item_count_counterexample:
  "NewSharder fill_startup_config [] = Inr (fill_startup_sharder [0, 0, 0, 0, 0]) \<and>
   run (fill_startup_sharder [0, 0, 0, 0, 0]) [Assign, Remove 3] =
     Inr (fill_startup_sharder [1, 0, 0, 0, 0]) \<and>
   GetTotalItemCount (fill_startup_sharder [1, 0, 0, 0, 0]) = 1 \<and>
   count_assigns [Assign, Remove 3] - count_removes [Assign, Remove 3] = 0"
proof -
  have "NewSharder fill_startup_config [] = Inr (fill_startup_sharder [0, 0, 0, 0, 0])"
    by (simp add: fill_startup_config_def NewSharder_def setUpShards_def GetShardCount_def
        createAndRegisterNewShard_def select_count_def select_count_where_id_def
        insert_shard_def fill_startup_sharder_def fill_startup_table_def)
  moreover have "run (fill_startup_sharder [0, 0, 0, 0, 0]) [Assign, Remove 3] =
     Inr (fill_startup_sharder [1, 0, 0, 0, 0])"
    by (simp add: AssignItemToShard_def RemoveItemFromShard_def fill_startup_sharder_def
        fill_startup_table_def fill_startup_config_def select_with_space_def
        update_item_count_def)
  moreover have "GetTotalItemCount (fill_startup_sharder [1, 0, 0, 0, 0]) = 1"
    by (simp add: GetTotalItemCount_def select_sum_item_count_def fill_startup_sharder_def
        fill_startup_table_def)
  moreover have "count_assigns [Assign, Remove 3] - count_removes [Assign, Remove 3] = 0"
    by (simp add: count_assigns_def count_removes_def)
  ultimately show ?thesis by blast
qed

text \<open>
  Claim C5, amended. After \<^verbatim>\<open>NewSharder\<close> over an empty base directory and any sequence
  of successful \<^verbatim>\<open>AssignItemToShard\<close> and \<^verbatim>\<open>RemoveItemFromShard\<close> calls,
  \<^verbatim>\<open>GetTotalItemCount()\<close> equals the sum of \<^verbatim>\<open>GetItemCount\<close> over the registered
  shards, and equals the number of assignments minus the number of those removals that
  named a registered shard with a positive \<^verbatim>\<open>item_count\<close>; so it is at least the
  number of assignments minus the number of removals.
\<close>

theorem total_item_count_accounting:
  assumes new: "NewSharder c [] = Inr s0" and ran: "run s0 ops = Inr s"
  shows "GetTotalItemCount s = sum_registered_item_counts s \<and>
         GetTotalItemCount s = count_assigns ops - count_effective_removes s0 ops \<and>
         count_assigns ops - count_removes ops \<le> GetTotalItemCount s"
proof -
  have "consistent s0 \<and> MaxDBCount (Config s0) = MaxDBCount c \<and>
         (\<exists>zs. MetaDB s0 = [] @ zs \<and> (\<forall>r\<in>set zs. item_count r = 0))"
  proof (rule NewSharder_consistent [OF new])
    show "primary_key []" by (simp add: primary_key_def)
    show "\<forall>r\<in>set []. 0 \<le> item_count r" by simp
    from NewSharder_Inr_Config [OF new] show "select_count [] \<le> MaxDBCount c"
      by (simp add: select_count_def)
  qed
  then have c0: "consistent s0" and zero: "\<forall>r\<in>set (MetaDB s0). item_count r = 0"
    by auto
  from zero have "sum_list (map item_count (MetaDB s0)) = 0"
    by (rule sum_item_count_zero)
  then have t0: "GetTotalItemCount s0 = 0" by (simp add: GetTotalItemCount_sum)
  from run_total [OF c0 ran] t0
  have c: "consistent s"
    and net: "GetTotalItemCount s = count_assigns ops - count_effective_removes s0 ops"
    by simp_all
  from c have "primary_key (MetaDB s)" by (simp add: consistent_def)
  then have "GetTotalItemCount s = sum_registered_item_counts s"
    by (simp add: sum_registered_item_counts_sum GetTotalItemCount_sum)
  moreover have "count_assigns ops - count_removes ops \<le> GetTotalItemCount s"
    using net count_effective_removes_le [of s0 ops] by simp
  ultimately show ?thesis using net by simp
qed

theorem total_item_count_accounting_witness:
  "NewSharder fill_startup_config [] = Inr (fill_startup_sharder [0, 0, 0, 0, 0]) \<and>
   run (fill_startup_sharder [0, 0, 0, 0, 0]) [Assign, Remove 3, Assign, Remove 0] =
     Inr (fill_startup_sharder [1, 0, 0, 0, 0]) \<and>
   count_assigns [Assign, Remove 3, Assign, Remove 0] = 2 \<and>
   count_removes [Assign, Remove 3, Assign, Remove 0] = 2 \<and>
   count_effective_removes (fill_startup_sharder [0, 0, 0, 0, 0])
     [Assign, Remove 3, Assign, Remove 0] = 1 \<and>
   GetTotalItemCount (fill_startup_sharder [1, 0, 0, 0, 0]) = 1 \<and>
   sum_registered_item_counts (fill_startup_sharder [1, 0, 0, 0, 0]) = 1"
proof -
  let ?s0 = "fill_startup_sharder [0, 0, 0, 0, 0]"
  let ?ops = "[Assign, Remove 3, Assign, Remove 0]"
  have new: "NewSharder fill_startup_config [] = Inr ?s0"
    by (simp add: fill_startup_config_def NewSharder_def setUpShards_def GetShardCount_def
        createAndRegisterNewShard_def select_count_def select_count_where_id_def
        insert_shard_def fill_startup_sharder_def fill_startup_table_def)
  have ran: "run ?s0 ?ops = Inr (fill_startup_sharder [1, 0, 0, 0, 0])"
    by (simp add: AssignItemToShard_def RemoveItemFromShard_def fill_startup_sharder_def
        fill_startup_table_def fill_startup_config_def select_with_space_def
        update_item_count_def)
  have a: "count_assigns ?ops = 2" and r: "count_removes ?ops = 2"
    by (simp_all add: count_assigns_def count_removes_def)
  have e: "count_effective_removes ?s0 ?ops = 1"
    by (simp add: AssignItemToShard_def RemoveItemFromShard_def GetItemCount_def
        select_item_count_def fill_startup_sharder_def fill_startup_table_def
        fill_startup_config_def select_with_space_def update_item_count_def)
  from total_item_count_accounting [OF new ran] a e
  have "GetTotalItemCount (fill_startup_sharder [1, 0, 0, 0, 0]) = 1"
    and "sum_registered_item_counts (fill_startup_sharder [1, 0, 0, 0, 0]) = 1"
    by simp_all
  with new ran a r e show ?thesis by blast
qed

end
